theory Spec2Isabelle
  imports Main "HOL-Library.AList"
begin

section \<open>The Cyberdesk operator: constants and enums\<close>

text \<open>
  A shallow embedding of \<^verbatim>\<open>services/cyberdesk-operator/handlers/controller.py\<close>.
  Python dictionaries are maps, exceptions are values of a result type, and the cluster
  behind \<^verbatim>\<open>CUSTOM_OBJECTS_API\<close> is an explicit state that every API call takes and
  returns. Log output and exception messages are not modelled.
\<close>

definition MANAGED_BY :: string where
  "MANAGED_BY = ''cyberdesk-operator''"

definition GOLDEN_SNAPSHOT_NAME :: string where
  "GOLDEN_SNAPSHOT_NAME = ''snapshot-golden-vm''"

text \<open>\<^verbatim>\<open>class KubeVirtVMIPhase(str, Enum)\<close> and \<^verbatim>\<open>class SupabaseInstanceStatus(str, Enum)\<close>.\<close>

datatype KubeVirtVMIPhase =
  VMI_PENDING | VMI_SCHEDULING | VMI_SCHEDULED | VMI_RUNNING | VMI_SUCCEEDED | VMI_FAILED
  | VMI_UNKNOWN

datatype SupabaseInstanceStatus = SB_PENDING | SB_RUNNING | SB_TERMINATED | SB_ERROR

text \<open>The enum's values, in declaration order.\<close>

definition KubeVirtVMIPhase_members :: "(string \<times> KubeVirtVMIPhase) list" where
  "KubeVirtVMIPhase_members =
     [(''Pending'', VMI_PENDING), (''Scheduling'', VMI_SCHEDULING),
      (''Scheduled'', VMI_SCHEDULED), (''Running'', VMI_RUNNING),
      (''Succeeded'', VMI_SUCCEEDED), (''Failed'', VMI_FAILED), (''Unknown'', VMI_UNKNOWN)]"

text \<open>\<^verbatim>\<open>KubeVirtVMIPhase(s)\<close>: lookup by value; \<open>None\<close> stands for the \<^verbatim>\<open>ValueError\<close>.\<close>

definition KubeVirtVMIPhase_of :: "string \<Rightarrow> KubeVirtVMIPhase option" where
  "KubeVirtVMIPhase_of s = map_of KubeVirtVMIPhase_members s"

fun status_value :: "SupabaseInstanceStatus \<Rightarrow> string" where
  "status_value SB_PENDING = ''pending''"
| "status_value SB_RUNNING = ''running''"
| "status_value SB_TERMINATED = ''terminated''"
| "status_value SB_ERROR = ''error''"

text \<open>The dictionary \<^verbatim>\<open>VMI_PHASE_TO_SUPABASE_STATUS\<close>.\<close>

definition VMI_PHASE_TO_SUPABASE_STATUS :: "KubeVirtVMIPhase \<rightharpoonup> SupabaseInstanceStatus" where
  "VMI_PHASE_TO_SUPABASE_STATUS =
     map_of [(VMI_PENDING, SB_PENDING), (VMI_SCHEDULING, SB_PENDING),
             (VMI_SCHEDULED, SB_PENDING), (VMI_RUNNING, SB_PENDING),
             (VMI_SUCCEEDED, SB_TERMINATED), (VMI_FAILED, SB_ERROR),
             (VMI_UNKNOWN, SB_ERROR)]"

text \<open>\<^verbatim>\<open>d.get(k, default)\<close>.\<close>

definition dict_get :: "('k \<rightharpoonup> 'v) \<Rightarrow> 'k \<Rightarrow> 'v \<Rightarrow> 'v" where
  "dict_get d k dflt = (case d k of None \<Rightarrow> dflt | Some v \<Rightarrow> v)"

section \<open>Supabase helpers\<close>

text \<open>
  The table \<^verbatim>\<open>cyberdesk_instances\<close> is a map from row id to the \<^verbatim>\<open>status\<close> column. A
  request to Supabase can raise; the flag \<open>sb_fails\<close> says whether the next request does.
  An update with \<^verbatim>\<open>.eq("id", instance_id)\<close> changes only a row that exists.
\<close>

record supabase =
  sb_rows :: "string \<rightharpoonup> string"
  sb_fails :: bool

definition get_instance_status :: "string \<Rightarrow> supabase \<Rightarrow> string option" where
  "get_instance_status instance_id db =
     (if sb_fails db then None else sb_rows db instance_id)"

text \<open>The status that \<^verbatim>\<open>update_instance_status\<close> computes in \<^verbatim>\<open>target\<close>.\<close>

definition target_status :: "string \<Rightarrow> SupabaseInstanceStatus" where
  "target_status vmi_phase =
     (case KubeVirtVMIPhase_of vmi_phase of
        None \<Rightarrow> SB_ERROR
      | Some phase_enum \<Rightarrow> dict_get VMI_PHASE_TO_SUPABASE_STATUS phase_enum SB_ERROR)"

definition update_instance_status :: "string \<Rightarrow> string \<Rightarrow> supabase \<Rightarrow> supabase" where
  "update_instance_status instance_id vmi_phase db =
     (let target = target_status vmi_phase in
      if sb_fails db then db
      else if sb_rows db instance_id = None then db
      else db\<lparr>sb_rows := (sb_rows db)(instance_id \<mapsto> status_value target)\<rparr>)"

text \<open>
  \<^verbatim>\<open>vmi_phase_change(old, new, meta, ...)\<close>: the watcher on \<^verbatim>\<open>status.phase\<close>. \<open>new\<close> is
  the new phase, \<open>labels\<close> is \<^verbatim>\<open>meta.get("labels", {})\<close>. A Python string is falsy when
  it is empty.
\<close>

definition falsy :: "string option \<Rightarrow> bool" where
  "falsy v = (v = None \<or> v = Some [])"

definition vmi_phase_change ::
  "string option \<Rightarrow> (string \<rightharpoonup> string) \<Rightarrow> supabase \<Rightarrow> supabase" where
  "vmi_phase_change new labels db =
     (case new of
        None \<Rightarrow> db
      | Some new_phase \<Rightarrow>
          if labels ''app'' \<noteq> Some ''cyberdesk'' then db
          else if falsy (labels ''cyberdesk-instance'') then db
          else
            (let instance_id = the (labels ''cyberdesk-instance'');
                 current_db = get_instance_status instance_id db;
                 desired = status_value (target_status new_phase)
             in if current_db \<noteq> Some desired
                then update_instance_status instance_id new_phase db
                else db))"

section \<open>The cluster behind the Kubernetes API\<close>

text \<open>
  The objects the operator reads and writes, with the fields it uses. All VM, VMI and clone
  calls of the source go to the one namespace \<^verbatim>\<open>KUBEVIRT_NAMESPACE\<close>, so these objects
  are keyed by name alone. VMs are kept in a list of name and object, since the pool
  claimer walks the list response in order.
\<close>

record vm =
  vm_labels :: "string \<rightharpoonup> string"
  vm_ownerReferences :: "string list"
  vm_printableStatus :: "string option"
  vm_runStrategy :: "string option"
  vm_template_labels :: "string \<rightharpoonup> string"
  vm_hostname :: "string option"

text \<open>A VMI: \<^verbatim>\<open>status.phase\<close> and the \<^verbatim>\<open>ipAddress\<close> of each entry of \<^verbatim>\<open>status.interfaces\<close>.\<close>

record vmi =
  vmi_phase :: "string option"
  vmi_interfaces :: "string option list"

text \<open>
  A \<^verbatim>\<open>VirtualMachineClone\<close>: the body the operator creates it from, and \<^verbatim>\<open>status.phase\<close>,
  which the clone controller writes.
\<close>

record clone =
  clone_labels :: "string \<rightharpoonup> string"
  clone_source :: string
  clone_target :: string
  clone_probe_command :: "string list"
  clone_phase :: "string option"

text \<open>
  Python exceptions that no handler of the source catches where they arise:
  \<^verbatim>\<open>OverflowError\<close> and \<^verbatim>\<open>TypeError\<close> of datetime arithmetic, and from the POST to the
  gateway the \<^verbatim>\<open>ValueError\<close> of a URL without a scheme (\<open>UnknownUrlType\<close>) and
  \<^verbatim>\<open>http.client.RemoteDisconnected\<close>. A POST is answered (\<open>Posted\<close>), or raises one of
  \<^verbatim>\<open>URLError\<close>, \<^verbatim>\<open>HTTPError\<close> and \<^verbatim>\<open>TimeoutError\<close> (\<open>Failed\<close>), or raises another
  exception.
\<close>

text \<open>
  The cluster. \<open>faults\<close> is the schedule of injected API failures: every API call takes
  the head of the list, and fails with that HTTP status as an \<^verbatim>\<open>ApiException\<close>, without
  effect, when the head is \<open>Some status\<close>; with an empty schedule no failure is injected.
  \<open>gateway\<close> is the global \<^verbatim>\<open>GATEWAY_BASE_URL\<close> and \<open>notified\<close> the URLs that were posted
  to. \<open>gateway_replies\<close> is the schedule of what the POSTs to the gateway do, see
  \<open>post_result\<close> below.
\<close>

datatype py_exception =
  OverflowError | TypeError | UnknownUrlType | RemoteDisconnected

datatype post_result = Posted | Failed | Raised py_exception

record world =
  vms :: "(string \<times> vm) list"
  vmis :: "string \<rightharpoonup> vmi"
  clones :: "string \<rightharpoonup> clone"
  cyberdesks :: "(string \<times> string) set"
  faults :: "nat option list"
  gateway :: "string option"
  notified :: "string list"
  gateway_replies :: "post_result list"

text \<open>The result of an API call: \<open>Inl status\<close> is \<^verbatim>\<open>ApiException\<close> with that status.\<close>

type_synonym 'a api_result = "(nat + 'a) \<times> world"

definition api_call :: "(world \<Rightarrow> 'a api_result) \<Rightarrow> world \<Rightarrow> 'a api_result" where
  "api_call f w =
     (case faults w of
        [] \<Rightarrow> f w
      | None # fs \<Rightarrow> f (w\<lparr>faults := fs\<rparr>)
      | Some status # fs \<Rightarrow> (Inl status, w\<lparr>faults := fs\<rparr>))"

text \<open>
  A patch body for a VM, with the fields the three patch bodies of the source use:
  whether \<^verbatim>\<open>metadata.ownerReferences\<close> is null, \<^verbatim>\<open>metadata.labels\<close>, \<^verbatim>\<open>spec.runStrategy\<close>,
  \<^verbatim>\<open>spec.template.metadata.labels\<close> and \<^verbatim>\<open>spec.template.spec.hostname\<close>.
\<close>

record vm_patch =
  patch_ownerReferences_null :: bool
  patch_labels :: "string \<rightharpoonup> string"
  patch_runStrategy :: "string option"
  patch_template_labels :: "string \<rightharpoonup> string"
  patch_hostname :: "string option"

text \<open>
  The API server applies a patch as a merge patch: a key of the patch replaces the value
  of that key, every other key stays, and a null removes the key.
\<close>

definition merge_patch :: "vm_patch \<Rightarrow> vm \<Rightarrow> vm" where
  "merge_patch p v =
     v\<lparr>vm_labels := vm_labels v ++ patch_labels p,
       vm_ownerReferences := (if patch_ownerReferences_null p then [] else vm_ownerReferences v),
       vm_runStrategy :=
         (case patch_runStrategy p of None \<Rightarrow> vm_runStrategy v | Some r \<Rightarrow> Some r),
       vm_template_labels := vm_template_labels v ++ patch_template_labels p,
       vm_hostname := (case patch_hostname p of None \<Rightarrow> vm_hostname v | Some h \<Rightarrow> Some h)\<rparr>"

text \<open>\<^verbatim>\<open>list_namespaced_custom_object(..., label_selector="pool.kubevirt.io/warm=ready")\<close>.\<close>

definition api_list_vms :: "world \<Rightarrow> (string \<times> vm) list api_result" where
  "api_list_vms =
     api_call (\<lambda>w.
       (Inr (filter (\<lambda>(n, v). vm_labels v ''pool.kubevirt.io/warm'' = Some ''ready'') (vms w)),
        w))"

definition api_get_vm :: "string \<Rightarrow> world \<Rightarrow> vm api_result" where
  "api_get_vm name =
     api_call (\<lambda>w. case map_of (vms w) name of None \<Rightarrow> (Inl 404, w) | Some v \<Rightarrow> (Inr v, w))"

definition api_patch_vm :: "string \<Rightarrow> vm_patch \<Rightarrow> world \<Rightarrow> vm api_result" where
  "api_patch_vm name body =
     api_call (\<lambda>w. case map_of (vms w) name of
        None \<Rightarrow> (Inl 404, w)
      | Some v \<Rightarrow>
          (Inr (merge_patch body v), w\<lparr>vms := AList.update name (merge_patch body v) (vms w)\<rparr>))"

definition api_delete_vm :: "string \<Rightarrow> world \<Rightarrow> unit api_result" where
  "api_delete_vm name =
     api_call (\<lambda>w. case map_of (vms w) name of
        None \<Rightarrow> (Inl 404, w)
      | Some v \<Rightarrow> (Inr (), w\<lparr>vms := AList.delete name (vms w)\<rparr>))"

definition api_get_vmi :: "string \<Rightarrow> world \<Rightarrow> vmi api_result" where
  "api_get_vmi name =
     api_call (\<lambda>w. case vmis w name of None \<Rightarrow> (Inl 404, w) | Some i \<Rightarrow> (Inr i, w))"

definition api_get_clone :: "string \<Rightarrow> world \<Rightarrow> clone api_result" where
  "api_get_clone name =
     api_call (\<lambda>w. case clones w name of None \<Rightarrow> (Inl 404, w) | Some c \<Rightarrow> (Inr c, w))"

definition api_create_clone :: "string \<Rightarrow> clone \<Rightarrow> world \<Rightarrow> clone api_result" where
  "api_create_clone name body =
     api_call (\<lambda>w. case clones w name of
        Some c \<Rightarrow> (Inl 409, w)
      | None \<Rightarrow> (Inr body, w\<lparr>clones := (clones w)(name \<mapsto> body)\<rparr>))"

definition api_delete_clone :: "string \<Rightarrow> world \<Rightarrow> unit api_result" where
  "api_delete_clone name =
     api_call (\<lambda>w. case clones w name of
        None \<Rightarrow> (Inl 404, w)
      | Some c \<Rightarrow> (Inr (), w\<lparr>clones := (clones w)(name := None)\<rparr>))"

definition api_delete_cyberdesk :: "string \<Rightarrow> string \<Rightarrow> world \<Rightarrow> unit api_result" where
  "api_delete_cyberdesk namespace name =
     api_call (\<lambda>w.
       if (namespace, name) \<in> cyberdesks w
       then (Inr (), w\<lparr>cyberdesks := cyberdesks w - {(namespace, name)}\<rparr>)
       else (Inl 404, w))"

section \<open>Handler outcomes\<close>

text \<open>
  How a handler ends: it returns, or raises \<^verbatim>\<open>kopf.TemporaryError\<close> (with its \<^verbatim>\<open>delay\<close>
  argument, \<open>None\<close> when the source gives none), \<^verbatim>\<open>kopf.PermanentError\<close>, or an exception
  no handler of the source catches.
\<close>

datatype outcome = Done | TemporaryError "nat option" | PermanentError | Unhandled py_exception

section \<open>Kubernetes helpers: the warm pool\<close>

text \<open>The \<^verbatim>\<open>patch_body\<close> of \<^verbatim>\<open>get_free_vm_from_pool\<close>, from the labels of the listed VM.\<close>

definition claim_patch_body :: "(string \<rightharpoonup> string) \<Rightarrow> vm_patch" where
  "claim_patch_body labels =
     \<lparr>patch_ownerReferences_null = True,
      patch_labels = labels ++ [''pool.kubevirt.io/in-use'' \<mapsto> ''true'',
                                ''pool.kubevirt.io/warm'' \<mapsto> ''claimed''],
      patch_runStrategy = None,
      patch_template_labels = Map.empty,
      patch_hostname = None\<rparr>"

text \<open>
  The loop \<^verbatim>\<open>for vm in vms.get("items", [])\<close>. An item without a name, or with an empty
  one, has the name \<open>[]\<close> here (\<^verbatim>\<open>if not vm_name\<close>).
\<close>

fun claim_loop :: "(string \<times> vm) list \<Rightarrow> world \<Rightarrow> string option \<times> world" where
  "claim_loop [] w = (None, w)"
| "claim_loop ((vm_name, v) # items) w =
     (if vm_name = [] then claim_loop items w
      else if vm_labels v ''pool.kubevirt.io/in-use'' = Some ''true'' then claim_loop items w
      else if vm_printableStatus v \<noteq> Some ''Running'' then claim_loop items w
      else
        (case api_patch_vm vm_name (claim_patch_body (vm_labels v)) w of
           (Inr _, w') \<Rightarrow> (Some vm_name, w')
         | (Inl _, w') \<Rightarrow> claim_loop items w'))"

definition get_free_vm_from_pool :: "world \<Rightarrow> (outcome + string option) \<times> world" where
  "get_free_vm_from_pool w =
     (case api_list_vms w of
        (Inl _, w') \<Rightarrow> (Inl (TemporaryError (Some 15)), w')
      | (Inr items, w') \<Rightarrow> (case claim_loop items w' of (r, w'') \<Rightarrow> (Inr r, w'')))"

text \<open>A candidate of the loop: an item that passes the three checks before the patch.\<close>

definition candidate :: "string \<times> vm \<Rightarrow> bool" where
  "candidate item =
     (fst item \<noteq> [] \<and> vm_labels (snd item) ''pool.kubevirt.io/in-use'' \<noteq> Some ''true''
      \<and> vm_printableStatus (snd item) = Some ''Running'')"

section \<open>Post-bind finalization\<close>

text \<open>The \<^verbatim>\<open>patch_body\<close> of \<^verbatim>\<open>_ensure_vm_patched_and_running\<close>.\<close>

definition ensure_patch_body :: "string \<Rightarrow> vm_patch" where
  "ensure_patch_body vm_name =
     \<lparr>patch_ownerReferences_null = False,
      patch_labels = [''managed-by'' \<mapsto> MANAGED_BY],
      patch_runStrategy = Some ''Always'',
      patch_template_labels =
        [''app'' \<mapsto> ''cyberdesk'', ''cyberdesk-instance'' \<mapsto> vm_name,
         ''managed-by'' \<mapsto> MANAGED_BY, ''kubevirt.io/domain'' \<mapsto> vm_name],
      patch_hostname = Some vm_name\<rparr>"

definition ensure_vm_patched_and_running :: "string \<Rightarrow> world \<Rightarrow> (outcome + unit) \<times> world" where
  "ensure_vm_patched_and_running vm_name w =
     (case api_patch_vm vm_name (ensure_patch_body vm_name) w of
        (Inl _, w') \<Rightarrow> (Inl (TemporaryError (Some 10)), w')
      | (Inr _, w') \<Rightarrow> (Inr (), w'))"

section \<open>The create handler\<close>

text \<open>
  The dictionary \<^verbatim>\<open>status.cyberdesk_create\<close> of a Cyberdesk, and what the handler assigns
  to \<^verbatim>\<open>patch.status["cyberdesk_create"]\<close>: there a key maps to \<open>None\<close> for a Python
  \<^verbatim>\<open>None\<close>. The framework sends the patch as a merge patch after the handler, whatever
  its outcome: a null removes the key, a key the patch does not have stays.
\<close>

type_synonym status = "string \<rightharpoonup> string"

type_synonym status_patch = "string \<rightharpoonup> string option"

definition apply_status_patch :: "status_patch option \<Rightarrow> status \<Rightarrow> status" where
  "apply_status_patch p st =
     (case p of
        None \<Rightarrow> st
      | Some body \<Rightarrow> (\<lambda>k. case body k of None \<Rightarrow> st k | Some v \<Rightarrow> v))"

text \<open>\<^verbatim>\<open>**current_status\<close> inside a dictionary display.\<close>

definition splat :: "status \<Rightarrow> status_patch" where
  "splat st = (\<lambda>k. map_option Some (st k))"

text \<open>
  Instants are microseconds since the Unix epoch. \<^verbatim>\<open>now + timedelta(milliseconds=ms)\<close>
  raises \<^verbatim>\<open>OverflowError\<close> (here \<open>None\<close>) when the sum leaves the range of
  \<^verbatim>\<open>datetime\<close>, years 1 to 9999. \<^verbatim>\<open>isoformat\<close> is a parameter \<open>isoformat\<close> of the handler.
\<close>

definition DATETIME_MIN :: int where
  "DATETIME_MIN = - 62135596800000000"

definition DATETIME_MAX :: int where
  "DATETIME_MAX = 253402300799999999"

definition datetime_add_ms :: "int \<Rightarrow> int \<Rightarrow> int option" where
  "datetime_add_ms now ms =
     (let t = now + 1000 * ms in
      if DATETIME_MIN \<le> t \<and> t \<le> DATETIME_MAX then Some t else None)"

text \<open>\<^verbatim>\<open>timeout_ms = spec.get("timeoutMs", 3_600_000)\<close>.\<close>

definition timeout_ms_of :: "(string \<rightharpoonup> int) \<Rightarrow> int" where
  "timeout_ms_of spec = dict_get spec ''timeoutMs'' 3600000"

text \<open>
  The idempotency check, taken when \<^verbatim>\<open>vm_ref\<close> is set and \<^verbatim>\<open>lastPhase\<close> is a bound
  phase. \<^verbatim>\<open>_ensure_vm_patched_and_running\<close> turns every \<^verbatim>\<open>ApiException\<close> into a
  \<^verbatim>\<open>TemporaryError\<close>, so the \<^verbatim>\<open>except ApiException\<close> of this block is never entered.
  Deleting top-level keys of \<^verbatim>\<open>patch.status\<close> does nothing: the handler only ever sets
  the key \<^verbatim>\<open>cyberdesk_create\<close>. The \<^verbatim>\<open>del\<close> of \<^verbatim>\<open>cloneOperationName\<close> takes the key out of
  the patch.
\<close>

definition reconcile_bound ::
  "(int \<Rightarrow> string) \<Rightarrow> int \<Rightarrow> string \<Rightarrow> status \<Rightarrow> int \<Rightarrow> world
   \<Rightarrow> outcome \<times> status_patch option \<times> world" where
  "reconcile_bound isoformat timeout_ms vm_ref current_status now w =
     (case ensure_vm_patched_and_running vm_ref w of
        (Inl e, w') \<Rightarrow> (e, None, w')
      | (Inr _, w') \<Rightarrow>
          if current_status ''startTime'' = None \<or> current_status ''expiryTime'' = None then
            (case datetime_add_ms now timeout_ms of
               None \<Rightarrow> (Unhandled OverflowError, None, w')
             | Some expiry \<Rightarrow>
                 (Done,
                  Some ((splat current_status
                          ++ [''startTime'' \<mapsto> Some (isoformat now),
                              ''expiryTime'' \<mapsto> Some (isoformat expiry)])
                        (''cloneOperationName'' := None)),
                  w'))
          else (Done, Some ((splat current_status)(''cloneOperationName'' := None)), w'))"

text \<open>The \<^verbatim>\<open>vm_patch_body\<close> for a VM assigned from the pool, merged with its labels.\<close>

definition pool_patch_body :: "string \<Rightarrow> vm \<Rightarrow> vm_patch" where
  "pool_patch_body instance_id current_vm =
     \<lparr>patch_ownerReferences_null = False,
      patch_labels = vm_labels current_vm
        ++ [''app'' \<mapsto> ''cyberdesk'', ''cyberdesk-instance'' \<mapsto> instance_id,
            ''managed-by'' \<mapsto> MANAGED_BY],
      patch_runStrategy = None,
      patch_template_labels = vm_template_labels current_vm
        ++ [''app'' \<mapsto> ''cyberdesk'', ''cyberdesk-instance'' \<mapsto> instance_id,
            ''managed-by'' \<mapsto> MANAGED_BY, ''kubevirt.io/domain'' \<mapsto> instance_id],
      patch_hostname = None\<rparr>"

text \<open>
  The POST to the gateway in the pool path. It is skipped without a base URL. What the
  request does is read from the schedule \<open>gateway_replies\<close>; with an empty schedule it is
  answered. The source catches \<^verbatim>\<open>URLError\<close>, \<^verbatim>\<open>HTTPError\<close> and \<^verbatim>\<open>TimeoutError\<close> and logs
  them; any other exception leaves the handler, here as \<open>Some\<close> of it.
\<close>

definition notify_gateway :: "string \<Rightarrow> world \<Rightarrow> py_exception option \<times> world" where
  "notify_gateway instance_id w =
     (if falsy (gateway w) then (None, w)
      else
        (let gateway_url = the (gateway w) @ ''/cyberdesk/'' @ instance_id @ ''/ready'' in
         case gateway_replies w of
           [] \<Rightarrow> (None, w\<lparr>notified := notified w @ [gateway_url]\<rparr>)
         | Posted # rs \<Rightarrow>
             (None, w\<lparr>notified := notified w @ [gateway_url], gateway_replies := rs\<rparr>)
         | Failed # rs \<Rightarrow> (None, w\<lparr>gateway_replies := rs\<rparr>)
         | Raised e # rs \<Rightarrow> (Some e, w\<lparr>gateway_replies := rs\<rparr>)))"

text \<open>The status written on a binding: from the pool or from a clone.\<close>

definition bound_status :: "string \<Rightarrow> string \<Rightarrow> string \<Rightarrow> string \<Rightarrow> status_patch" where
  "bound_status vm_ref start expiry phase =
     [''virtualMachineRef'' \<mapsto> Some vm_ref, ''startTime'' \<mapsto> Some start,
      ''expiryTime'' \<mapsto> Some expiry, ''lastPhase'' \<mapsto> Some phase,
      ''cloneOperationName'' \<mapsto> None]"

text \<open>The branch \<^verbatim>\<open>if assigned_vm_name:\<close>.\<close>

definition assign_from_pool ::
  "(int \<Rightarrow> string) \<Rightarrow> int \<Rightarrow> string \<Rightarrow> string \<Rightarrow> int \<Rightarrow> world
   \<Rightarrow> outcome \<times> status_patch option \<times> world" where
  "assign_from_pool isoformat timeout_ms instance_id assigned_vm_name now w =
     (case api_get_vm assigned_vm_name w of
        (Inl _, w1) \<Rightarrow> (TemporaryError (Some 10), None, w1)
      | (Inr current_vm, w1) \<Rightarrow>
     (case api_patch_vm assigned_vm_name (pool_patch_body instance_id current_vm) w1 of
        (Inl _, w2) \<Rightarrow> (TemporaryError (Some 10), None, w2)
      | (Inr _, w2) \<Rightarrow>
     (case api_get_vmi assigned_vm_name w2 of
        (Inl status, w3) \<Rightarrow>
          if status = 404 then (TemporaryError None, None, w3)
          else (TemporaryError (Some 10), None, w3)
      | (Inr vmi_obj, w3) \<Rightarrow>
          (let vmi_ip = (case vmi_interfaces vmi_obj of [] \<Rightarrow> None | i # _ \<Rightarrow> i) in
           if falsy vmi_ip \<or> vmi_phase vmi_obj \<noteq> Some ''Running''
           then (TemporaryError None, None, w3)
           else
             (case notify_gateway instance_id w3 of
                (Some e, w4) \<Rightarrow> (Unhandled e, None, w4)
              | (None, w4) \<Rightarrow>
                  (case datetime_add_ms now timeout_ms of
                     None \<Rightarrow> (Unhandled OverflowError, None, w4)
                   | Some expiry \<Rightarrow>
                       (Done,
                        Some (bound_status assigned_vm_name (isoformat now) (isoformat expiry)
                               ''AssignedFromPool''),
                        w4)))))))"

text \<open>The \<^verbatim>\<open>clone_body\<close>; a new clone has no status yet.\<close>

definition clone_body :: "string \<Rightarrow> clone" where
  "clone_body instance_id =
     \<lparr>clone_labels = [''managed-by'' \<mapsto> MANAGED_BY, ''cyberdesk-instance'' \<mapsto> instance_id],
      clone_source = GOLDEN_SNAPSHOT_NAME,
      clone_target = instance_id,
      clone_probe_command = [''test'', ''-f'', ''/var/lib/cloud/instance/boot-finished''],
      clone_phase = None\<rparr>"

text \<open>The status written when the clone failed or timed out.\<close>

definition unbound_status :: "status \<Rightarrow> string \<Rightarrow> status_patch" where
  "unbound_status current_status phase =
     splat current_status
       ++ [''lastPhase'' \<mapsto> Some phase, ''cloneOperationName'' \<mapsto> None,
           ''virtualMachineRef'' \<mapsto> None]"

text \<open>
  The state ``Check Clone Status'', reached with \<^verbatim>\<open>clone_op_name\<close> set. An
  \<^verbatim>\<open>ApiException\<close> of the create call reaches the outer \<^verbatim>\<open>except ApiException\<close>, and an
  \<^verbatim>\<open>OverflowError\<close> the outer \<^verbatim>\<open>except Exception\<close>.
\<close>

definition check_clone_status ::
  "(int \<Rightarrow> string) \<Rightarrow> int \<Rightarrow> string \<Rightarrow> string \<Rightarrow> status \<Rightarrow> nat \<Rightarrow> int \<Rightarrow> world
   \<Rightarrow> outcome \<times> status_patch option \<times> world" where
  "check_clone_status isoformat timeout_ms instance_id clone_op_name current_status retry now w =
     (case api_get_clone clone_op_name w of
        (Inl status, w1) \<Rightarrow>
          if status = 404 then
            (case api_create_clone clone_op_name (clone_body instance_id) w1 of
               (Inl _, w2) \<Rightarrow> (TemporaryError (Some 5), None, w2)
             | (Inr _, w2) \<Rightarrow> (TemporaryError (Some 5), None, w2))
          else (TemporaryError (Some 5), None, w1)
      | (Inr clone_obj, w1) \<Rightarrow>
          (let phase = clone_phase clone_obj in
           if phase = Some ''Succeeded'' then
             (case ensure_vm_patched_and_running instance_id w1 of
                (Inl e, w2) \<Rightarrow> (e, None, w2)
              | (Inr _, w2) \<Rightarrow>
                  (case datetime_add_ms now timeout_ms of
                     None \<Rightarrow> (TemporaryError (Some 30), None, w2)
                   | Some expiry \<Rightarrow>
                       (Done,
                        Some (bound_status instance_id (isoformat now) (isoformat expiry) ''Cloned''),
                        w2)))
           else if phase = Some ''Failed'' then
             (PermanentError, Some (unbound_status current_status ''CloneFailed''), w1)
           else if phase = Some ''Unknown'' then (TemporaryError (Some 5), None, w1)
           else if retry \<ge> 20 then
             (case api_delete_clone clone_op_name w1 of
                (_, w2) \<Rightarrow>
                  (PermanentError, Some (unbound_status current_status ''CloneTimeout''), w2))
           else (TemporaryError (Some 5), None, w1)))"

text \<open>The status written before the clone object is created.\<close>

definition cloning_initiated_status :: "string \<Rightarrow> status_patch" where
  "cloning_initiated_status clone_op_name =
     [''cloneOperationName'' \<mapsto> Some clone_op_name, ''lastPhase'' \<mapsto> Some ''CloningInitiated'',
      ''virtualMachineRef'' \<mapsto> None]"

text \<open>\<^verbatim>\<open>vm_ref and last_phase in ["AssignedFromPool", "Cloned", "Running"]\<close>.\<close>

definition already_provisioned :: "status \<Rightarrow> bool" where
  "already_provisioned current_status =
     (\<not> falsy (current_status ''virtualMachineRef'')
      \<and> current_status ''lastPhase''
          \<in> set [Some ''AssignedFromPool'', Some ''Cloned'', Some ''Running''])"

text \<open>
  \<^verbatim>\<open>cyberdesk_create(spec, meta, status, logger, patch, body, retry)\<close>, with
  \<open>instance_id\<close> for \<^verbatim>\<open>meta["name"]\<close>, \<open>current_status\<close> for
  \<^verbatim>\<open>body.get("status", {}).get("cyberdesk_create", {})\<close> and \<open>now\<close> for the clock. It
  gives the outcome, the value assigned to \<^verbatim>\<open>patch.status["cyberdesk_create"]\<close> if any,
  and the cluster. The safeguard \<^verbatim>\<open>if not clone_op_name\<close> before the clone check is never
  taken: every path that leaves \<^verbatim>\<open>clone_op_name\<close> unset has returned or raised before.
\<close>

definition cyberdesk_create ::
  "(int \<Rightarrow> string) \<Rightarrow> (string \<rightharpoonup> int) \<Rightarrow> string \<Rightarrow> status \<Rightarrow> nat \<Rightarrow> int \<Rightarrow> world
   \<Rightarrow> outcome \<times> status_patch option \<times> world" where
  "cyberdesk_create isoformat spec instance_id current_status retry now w =
     (let timeout_ms = timeout_ms_of spec;
          vm_ref = current_status ''virtualMachineRef'';
          clone_op_name = current_status ''cloneOperationName''
      in
      if already_provisioned current_status then
        reconcile_bound isoformat timeout_ms (the vm_ref) current_status now w
      else if \<not> falsy clone_op_name then
        check_clone_status isoformat timeout_ms instance_id (the clone_op_name) current_status
          retry now w
      else
        (case get_free_vm_from_pool w of
           (Inl e, w1) \<Rightarrow> (e, None, w1)
         | (Inr assigned_vm_name, w1) \<Rightarrow>
             if \<not> falsy assigned_vm_name then
               assign_from_pool isoformat timeout_ms instance_id (the assigned_vm_name) now w1
             else
               (TemporaryError (Some 5),
                Some (cloning_initiated_status (''clone-for-'' @ instance_id)),
                w1)))"

text \<open>
  The statuses the handler can write: a new Cyberdesk has an empty status, and every
  invocation of the handler, with any arguments and in any cluster, adds its patch.
\<close>

inductive reachable_status :: "status \<Rightarrow> bool" where
  initial: "reachable_status Map.empty"
| reconciled:
    "reachable_status st \<Longrightarrow>
     cyberdesk_create isoformat spec n st retry now w = (out, p, w') \<Longrightarrow>
     reachable_status (apply_status_patch p st)"

text \<open>Not both a VM reference and a clone operation name.\<close>

definition exclusive :: "status \<Rightarrow> bool" where
  "exclusive st = (st ''virtualMachineRef'' = None \<or> st ''cloneOperationName'' = None)"

section \<open>The delete handler and the expiry timer\<close>

text \<open>\<^verbatim>\<open>cyberdesk_delete(meta, body, logger)\<close>, on the status of the deleted Cyberdesk.\<close>

definition cyberdesk_delete :: "status \<Rightarrow> world \<Rightarrow> outcome \<times> world" where
  "cyberdesk_delete current_status w =
     (let vm_name = current_status ''virtualMachineRef'' in
      if \<not> falsy vm_name then
        (case api_delete_vm (the vm_name) w of
           (Inl status, w') \<Rightarrow>
             if status \<notin> set [404, 410] then (TemporaryError (Some 15), w') else (Done, w')
         | (Inr _, w') \<Rightarrow> (Done, w'))
      else
        (let clone_op_name = current_status ''cloneOperationName'' in
         if \<not> falsy clone_op_name then
           (case api_delete_clone (the clone_op_name) w of (_, w') \<Rightarrow> (Done, w'))
         else (Done, w)))"

text \<open>
  \<^verbatim>\<open>datetime.fromisoformat\<close> is a parameter \<open>parse\<close> of the timer: it raises
  \<^verbatim>\<open>ValueError\<close>, or gives a datetime without a UTC offset, or one with an offset, as an
  instant. Comparing the aware \<^verbatim>\<open>datetime.now(UTC)\<close> with a naive datetime raises
  \<^verbatim>\<open>TypeError\<close>, which the timer does not catch.
\<close>

datatype parsed = ValueError | Naive int | Aware int

text \<open>The \<^verbatim>\<open>interval\<close> of \<^verbatim>\<open>@kopf.on.timer\<close>, in seconds.\<close>

definition timeout_check_interval :: nat where
  "timeout_check_interval = 60"

definition cyberdesk_timeout_check ::
  "(string \<Rightarrow> parsed) \<Rightarrow> status \<Rightarrow> string \<Rightarrow> string \<Rightarrow> int \<Rightarrow> world \<Rightarrow> outcome \<times> world" where
  "cyberdesk_timeout_check parse current_status instance_id namespace now w =
     (let expiry_str = current_status ''expiryTime'' in
      if falsy expiry_str then (Done, w)
      else
        (case parse (the expiry_str) of
           ValueError \<Rightarrow> (Done, w)
         | Naive _ \<Rightarrow> (Unhandled TypeError, w)
         | Aware expiry_dt \<Rightarrow>
             if now \<ge> expiry_dt then
               (case api_delete_cyberdesk namespace instance_id w of
                  (Inl _, w') \<Rightarrow> (TemporaryError (Some 30), w')
                | (Inr _, w') \<Rightarrow> (Done, w'))
             else (Done, w)))"

section \<open>Scenarios\<close>

text \<open>Concrete objects for the examples below: a warm VM of the pool, and a cluster.\<close>

definition warm_vm :: vm where
  "warm_vm =
     \<lparr>vm_labels = [''pool.kubevirt.io/warm'' \<mapsto> ''ready''],
      vm_ownerReferences = [''warm-pool''],
      vm_printableStatus = Some ''Running'',
      vm_runStrategy = None,
      vm_template_labels = Map.empty,
      vm_hostname = None\<rparr>"

definition cluster :: "(string \<times> vm) list \<Rightarrow> (string \<rightharpoonup> clone) \<Rightarrow> nat option list \<Rightarrow> world" where
  "cluster vs cs fs =
     \<lparr>vms = vs, vmis = Map.empty, clones = cs, cyberdesks = {(''default'', ''desk-4'')},
      faults = fs, gateway = None, notified = [], gateway_replies = []\<rparr>"

text \<open>A parser for the timer examples, defined on three strings.\<close>

definition parse_demo :: "string \<Rightarrow> parsed" where
  "parse_demo s =
     (if s = ''1970-01-01T00:00:01+00:00'' then Aware 1000000
      else if s = ''1970-01-01T00:00:01'' then Naive 1000000
      else ValueError)"

text \<open>
  An \<^verbatim>\<open>isoformat\<close> for the examples, a VM as the clone controller restores it, a clone in
  a given phase, and the status of a Cyberdesk that waits for its clone.
\<close>

definition isoformat_demo :: "int \<Rightarrow> string" where
  "isoformat_demo t =
     (if t = 0 then ''1970-01-01T00:00:00+00:00''
      else if t = 3600000000 then ''1970-01-01T01:00:00+00:00''
      else ''later'')"

definition restored_vm :: vm where
  "restored_vm =
     \<lparr>vm_labels = [''kubevirt.io/os'' \<mapsto> ''linux''],
      vm_ownerReferences = [],
      vm_printableStatus = Some ''Stopped'',
      vm_runStrategy = Some ''Halted'',
      vm_template_labels = [''kubevirt.io/size'' \<mapsto> ''small''],
      vm_hostname = None\<rparr>"

definition clone_in_phase :: "string \<Rightarrow> string \<Rightarrow> clone" where
  "clone_in_phase instance_id phase = (clone_body instance_id)\<lparr>clone_phase := Some phase\<rparr>"

definition cloning_status :: status where
  "cloning_status =
     [''cloneOperationName'' \<mapsto> ''clone-for-desk-2'', ''lastPhase'' \<mapsto> ''CloningInitiated'']"

text \<open>A pool VM after its assignment to the desktop desk-1, and the status of that desktop.\<close>

definition assigned_vm :: vm where
  "assigned_vm =
     \<lparr>vm_labels = [''pool.kubevirt.io/warm'' \<mapsto> ''claimed'', ''pool.kubevirt.io/in-use'' \<mapsto> ''true'',
                   ''app'' \<mapsto> ''cyberdesk'', ''cyberdesk-instance'' \<mapsto> ''desk-1'',
                   ''managed-by'' \<mapsto> ''cyberdesk-operator''],
      vm_ownerReferences = [],
      vm_printableStatus = Some ''Running'',
      vm_runStrategy = Some ''Always'',
      vm_template_labels = [''app'' \<mapsto> ''cyberdesk'', ''cyberdesk-instance'' \<mapsto> ''desk-1'',
                            ''managed-by'' \<mapsto> ''cyberdesk-operator'',
                            ''kubevirt.io/domain'' \<mapsto> ''desk-1''],
      vm_hostname = None\<rparr>"

definition pool_bound_status :: status where
  "pool_bound_status =
     [''virtualMachineRef'' \<mapsto> ''vm-a'', ''lastPhase'' \<mapsto> ''AssignedFromPool'',
      ''startTime'' \<mapsto> ''1970-01-01T00:00:00+00:00'',
      ''expiryTime'' \<mapsto> ''1970-01-01T01:00:00+00:00'']"

text \<open>
  A cluster for the pool path: the VMI of vm-a runs and has an address, and a gateway is
  configured. The warm VM after the claim, and the status of a bound desktop without
  times.
\<close>

definition running_vmi :: vmi where
  "running_vmi = \<lparr>vmi_phase = Some ''Running'', vmi_interfaces = [Some ''10.0.0.7'']\<rparr>"

definition pool_world :: "(string \<times> vm) list \<Rightarrow> string list \<Rightarrow> world" where
  "pool_world vs ns =
     \<lparr>vms = vs, vmis = [''vm-a'' \<mapsto> running_vmi], clones = Map.empty, cyberdesks = {},
      faults = [], gateway = Some ''http://gateway'', notified = ns, gateway_replies = []\<rparr>"

definition claimed_vm :: vm where
  "claimed_vm = merge_patch (claim_patch_body (vm_labels warm_vm)) warm_vm"

definition unfinished_status :: status where
  "unfinished_status = [''virtualMachineRef'' \<mapsto> ''desk-2'', ''lastPhase'' \<mapsto> ''Cloned'']"

section \<open>Phase mapping\<close>

lemma KubeVirtVMIPhase_of_unrecognized:
  "p \<notin> fst ` set KubeVirtVMIPhase_members \<Longrightarrow> KubeVirtVMIPhase_of p = None"
  by (simp add: KubeVirtVMIPhase_of_def map_of_eq_None_iff)

text \<open>
  Claim C4. The phase synchronizer sends Pending, Scheduling, Scheduled and Running to
  pending, Succeeded to terminated, Failed and Unknown to error, and every string that is
  not one of the seven phases to error; that is the value \<^verbatim>\<open>update_instance_status\<close>
  writes into the row of the instance.
\<close>

theorem phase_mapping:
  "status_value (target_status ''Pending'') = ''pending''
   \<and> status_value (target_status ''Scheduling'') = ''pending''
   \<and> status_value (target_status ''Scheduled'') = ''pending''
   \<and> status_value (target_status ''Running'') = ''pending''
   \<and> status_value (target_status ''Succeeded'') = ''terminated''
   \<and> status_value (target_status ''Failed'') = ''error''
   \<and> status_value (target_status ''Unknown'') = ''error''
   \<and> (p \<notin> set [''Pending'', ''Scheduling'', ''Scheduled'', ''Running'', ''Succeeded'',
                 ''Failed'', ''Unknown''] \<longrightarrow> status_value (target_status p) = ''error'')
   \<and> (\<not> sb_fails db \<and> sb_rows db i \<noteq> None \<longrightarrow>
        sb_rows (update_instance_status i p db) i = Some (status_value (target_status p)))"
proof -
  have known:
    "target_status ''Pending'' = SB_PENDING" "target_status ''Scheduling'' = SB_PENDING"
    "target_status ''Scheduled'' = SB_PENDING" "target_status ''Running'' = SB_PENDING"
    "target_status ''Succeeded'' = SB_TERMINATED" "target_status ''Failed'' = SB_ERROR"
    "target_status ''Unknown'' = SB_ERROR"
    by (simp_all add: target_status_def KubeVirtVMIPhase_of_def KubeVirtVMIPhase_members_def
        VMI_PHASE_TO_SUPABASE_STATUS_def dict_get_def)
  have unknown: "target_status p = SB_ERROR"
    if "p \<notin> set [''Pending'', ''Scheduling'', ''Scheduled'', ''Running'', ''Succeeded'',
                  ''Failed'', ''Unknown'']"
  proof -
    from that have "p \<notin> fst ` set KubeVirtVMIPhase_members"
      by (simp add: KubeVirtVMIPhase_members_def)
    then show ?thesis
      by (simp add: target_status_def KubeVirtVMIPhase_of_unrecognized)
  qed
  have written: "sb_rows (update_instance_status i p db) i = Some (status_value (target_status p))"
    if "\<not> sb_fails db \<and> sb_rows db i \<noteq> None"
    using that by (auto simp: update_instance_status_def Let_def)
  show ?thesis
    using known unknown written by simp
qed

theorem phase_mapping_witness:
  "''Paused'' \<notin> set [''Pending'', ''Scheduling'', ''Scheduled'', ''Running'', ''Succeeded'',
                      ''Failed'', ''Unknown'']
   \<and> status_value (target_status ''Paused'') = ''error''
   \<and> \<not> sb_fails \<lparr>sb_rows = [''desk-3'' \<mapsto> ''pending''], sb_fails = False\<rparr>
   \<and> sb_rows \<lparr>sb_rows = [''desk-3'' \<mapsto> ''pending''], sb_fails = False\<rparr> ''desk-3'' \<noteq> None
   \<and> sb_rows (update_instance_status ''desk-3'' ''Paused''
        \<lparr>sb_rows = [''desk-3'' \<mapsto> ''pending''], sb_fails = False\<rparr>) ''desk-3'' = Some ''error''"
  using phase_mapping [of "''Paused''" "\<lparr>sb_rows = [''desk-3'' \<mapsto> ''pending''], sb_fails = False\<rparr>"
      "''desk-3''"]
  by simp

section \<open>Effects of the API calls\<close>

lemma api_patch_vm_cases:
  "api_patch_vm n b w = (r, w') \<Longrightarrow>
     clones w' = clones w \<and> vmis w' = vmis w \<and> cyberdesks w' = cyberdesks w
     \<and> gateway w' = gateway w \<and> notified w' = notified w
     \<and> (case r of Inl s \<Rightarrow> vms w' = vms w
         | Inr v' \<Rightarrow> (\<exists>v. map_of (vms w) n = Some v \<and> v' = merge_patch b v
                        \<and> vms w' = AList.update n v' (vms w)))"
  by (auto simp: api_patch_vm_def api_call_def split: list.splits option.splits)

lemma api_list_vms_cases:
  "api_list_vms w = (r, w') \<Longrightarrow>
     clones w' = clones w \<and> vmis w' = vmis w \<and> cyberdesks w' = cyberdesks w
     \<and> gateway w' = gateway w \<and> notified w' = notified w \<and> vms w' = vms w"
  by (auto simp: api_list_vms_def api_call_def split: list.splits option.splits)

lemma claim_loop_clones:
  "claim_loop items w = (r, w') \<Longrightarrow> clones w' = clones w"
proof (induction items arbitrary: w)
  case Nil
  then show ?case by simp
next
  case (Cons item items)
  obtain n v where item: "item = (n, v)" by (cases item)
  show ?case
  proof (cases "candidate item")
    case False
    with Cons item show ?thesis by (auto simp: candidate_def split: if_splits)
  next
    case True
    obtain pr w1 where p: "api_patch_vm n (claim_patch_body (vm_labels v)) w = (pr, w1)"
      by (cases "api_patch_vm n (claim_patch_body (vm_labels v)) w")
    from api_patch_vm_cases [OF p] have c1: "clones w1 = clones w" by simp
    show ?thesis
    proof (cases pr)
      case (Inl s)
      with Cons.prems item True p have "claim_loop items w1 = (r, w')"
        by (simp add: candidate_def)
      from Cons.IH [OF this] c1 show ?thesis by simp
    next
      case (Inr v')
      with Cons.prems item True p have "w' = w1" by (simp add: candidate_def)
      with c1 show ?thesis by simp
    qed
  qed
qed

lemma claim_loop_Some:
  "claim_loop items w = (Some n, w') \<Longrightarrow> \<exists>v. (n, v) \<in> set items \<and> candidate (n, v)"
proof (induction items arbitrary: w)
  case Nil
  then show ?case by simp
next
  case (Cons item items)
  obtain m v where item: "item = (m, v)" by (cases item)
  show ?case
  proof (cases "candidate item")
    case False
    with Cons item show ?thesis by (auto simp: candidate_def split: if_splits)
  next
    case True
    obtain pr w1 where p: "api_patch_vm m (claim_patch_body (vm_labels v)) w = (pr, w1)"
      by (cases "api_patch_vm m (claim_patch_body (vm_labels v)) w")
    show ?thesis
    proof (cases pr)
      case (Inl s)
      with Cons.prems item True p have "claim_loop items w1 = (Some n, w')"
        by (simp add: candidate_def)
      from Cons.IH [OF this] show ?thesis by auto
    next
      case (Inr v')
      with Cons.prems item True p have "n = m" by (simp add: candidate_def)
      with True item show ?thesis by auto
    qed
  qed
qed

lemma api_delete_vm_cases:
  "api_delete_vm n w = (r, w') \<Longrightarrow>
     clones w' = clones w \<and> vmis w' = vmis w \<and> cyberdesks w' = cyberdesks w
     \<and> gateway w' = gateway w \<and> notified w' = notified w
     \<and> (case r of Inl s \<Rightarrow> vms w' = vms w
         | Inr u \<Rightarrow> map_of (vms w) n \<noteq> None \<and> vms w' = AList.delete n (vms w))"
  by (auto simp: api_delete_vm_def api_call_def split: list.splits option.splits)

lemma api_delete_clone_cases:
  "api_delete_clone n w = (r, w') \<Longrightarrow>
     vms w' = vms w \<and> vmis w' = vmis w \<and> cyberdesks w' = cyberdesks w
     \<and> gateway w' = gateway w \<and> notified w' = notified w
     \<and> (case r of Inl s \<Rightarrow> clones w' = clones w
         | Inr u \<Rightarrow> clones w n \<noteq> None \<and> clones w' = (clones w)(n := None))"
  by (auto simp: api_delete_clone_def api_call_def split: list.splits option.splits)

lemma api_delete_cyberdesk_cases:
  "api_delete_cyberdesk ns n w = (r, w') \<Longrightarrow>
     vms w' = vms w \<and> vmis w' = vmis w \<and> clones w' = clones w
     \<and> gateway w' = gateway w \<and> notified w' = notified w
     \<and> (case r of Inl s \<Rightarrow> cyberdesks w' = cyberdesks w
         | Inr u \<Rightarrow> (ns, n) \<in> cyberdesks w \<and> cyberdesks w' = cyberdesks w - {(ns, n)})"
  by (auto simp: api_delete_cyberdesk_def api_call_def split: list.splits option.splits if_splits)

section \<open>The pool claimer\<close>

text \<open>
  Claim C8. When the list call of the pool claimer fails, the claimer raises a temporary
  error. When the claim patch of a candidate fails, with whatever status, the loop goes
  on with the items after it, in the cluster the failed call left. After a list call that
  succeeded the claimer never raises: it returns what the loop returns.
\<close>

theorem pool_claim_errors:
  "(api_list_vms w = (Inl s, w') \<longrightarrow>
      get_free_vm_from_pool w = (Inl (TemporaryError (Some 15)), w'))
   \<and> (candidate (n, v) \<and> api_patch_vm n (claim_patch_body (vm_labels v)) w = (Inl s, w') \<longrightarrow>
      claim_loop ((n, v) # items) w = claim_loop items w')
   \<and> (api_list_vms w = (Inr items, w') \<longrightarrow>
      get_free_vm_from_pool w
        = (Inr (fst (claim_loop items w')), snd (claim_loop items w')))"
  by (simp add: get_free_vm_from_pool_def candidate_def split: prod.splits)

theorem pool_claim_errors_witness:
  "api_list_vms (cluster [(''vm-a'', warm_vm), (''vm-b'', warm_vm)] Map.empty [Some 500])
     = (Inl 500, cluster [(''vm-a'', warm_vm), (''vm-b'', warm_vm)] Map.empty [])
   \<and> get_free_vm_from_pool (cluster [(''vm-a'', warm_vm), (''vm-b'', warm_vm)] Map.empty [Some 500])
     = (Inl (TemporaryError (Some 15)),
        cluster [(''vm-a'', warm_vm), (''vm-b'', warm_vm)] Map.empty [])
   \<and> candidate (''vm-a'', warm_vm)
   \<and> api_patch_vm ''vm-a'' (claim_patch_body (vm_labels warm_vm))
        (cluster [(''vm-a'', warm_vm), (''vm-b'', warm_vm)] Map.empty [Some 409])
     = (Inl 409, cluster [(''vm-a'', warm_vm), (''vm-b'', warm_vm)] Map.empty [])
   \<and> claim_loop [(''vm-a'', warm_vm), (''vm-b'', warm_vm)]
        (cluster [(''vm-a'', warm_vm), (''vm-b'', warm_vm)] Map.empty [Some 409])
     = claim_loop [(''vm-b'', warm_vm)]
        (cluster [(''vm-a'', warm_vm), (''vm-b'', warm_vm)] Map.empty [])
   \<and> api_list_vms (cluster [(''vm-a'', warm_vm), (''vm-b'', warm_vm)] Map.empty [None, Some 409])
     = (Inr [(''vm-a'', warm_vm), (''vm-b'', warm_vm)],
        cluster [(''vm-a'', warm_vm), (''vm-b'', warm_vm)] Map.empty [Some 409])
   \<and> get_free_vm_from_pool
        (cluster [(''vm-a'', warm_vm), (''vm-b'', warm_vm)] Map.empty [None, Some 409])
     = (Inr (Some ''vm-b''),
        cluster [(''vm-a'', warm_vm),
                 (''vm-b'', merge_patch (claim_patch_body (vm_labels warm_vm)) warm_vm)]
          Map.empty [])"
proof -
  let ?vs = "[(''vm-a'', warm_vm), (''vm-b'', warm_vm)]"
  let ?vs' = "[(''vm-a'', warm_vm),
               (''vm-b'', merge_patch (claim_patch_body (vm_labels warm_vm)) warm_vm)]"
  have l: "api_list_vms (cluster ?vs Map.empty [Some 500]) = (Inl 500, cluster ?vs Map.empty [])"
    by (simp add: api_list_vms_def api_call_def cluster_def)
  have l2: "api_list_vms (cluster ?vs Map.empty [None, Some 409])
      = (Inr ?vs, cluster ?vs Map.empty [Some 409])"
    by (simp add: api_list_vms_def api_call_def cluster_def warm_vm_def)
  have c: "candidate (''vm-a'', warm_vm)"
    by (simp add: candidate_def warm_vm_def)
  have p: "api_patch_vm ''vm-a'' (claim_patch_body (vm_labels warm_vm))
        (cluster ?vs Map.empty [Some 409]) = (Inl 409, cluster ?vs Map.empty [])"
    by (simp add: api_patch_vm_def api_call_def cluster_def)
  have p2: "api_patch_vm ''vm-b'' (claim_patch_body (vm_labels warm_vm))
        (cluster ?vs Map.empty [])
      = (Inr (merge_patch (claim_patch_body (vm_labels warm_vm)) warm_vm),
         cluster ?vs' Map.empty [])"
    by (simp add: api_patch_vm_def api_call_def cluster_def)
  have c2: "vm_labels warm_vm ''pool.kubevirt.io/in-use'' \<noteq> Some ''true''"
    "vm_printableStatus warm_vm = Some ''Running''"
    by (simp_all add: warm_vm_def)
  from p2 c2 have r: "claim_loop [(''vm-b'', warm_vm)] (cluster ?vs Map.empty [])
      = (Some ''vm-b'', cluster ?vs' Map.empty [])"
    by simp
  from pool_claim_errors [where w = "cluster ?vs Map.empty [Some 500]" and s = 500
      and w' = "cluster ?vs Map.empty []"] l
  have 1: "get_free_vm_from_pool (cluster ?vs Map.empty [Some 500])
     = (Inl (TemporaryError (Some 15)), cluster ?vs Map.empty [])" by blast
  from pool_claim_errors [where w = "cluster ?vs Map.empty [Some 409]" and s = 409
      and w' = "cluster ?vs Map.empty []" and n = "''vm-a''" and v = warm_vm
      and items = "[(''vm-b'', warm_vm)]"] c p
  have 2: "claim_loop ?vs (cluster ?vs Map.empty [Some 409])
     = claim_loop [(''vm-b'', warm_vm)] (cluster ?vs Map.empty [])" by blast
  from pool_claim_errors [where w = "cluster ?vs Map.empty [None, Some 409]"
      and w' = "cluster ?vs Map.empty [Some 409]" and items = ?vs] l2
  have "get_free_vm_from_pool (cluster ?vs Map.empty [None, Some 409])
      = (Inr (fst (claim_loop ?vs (cluster ?vs Map.empty [Some 409]))),
         snd (claim_loop ?vs (cluster ?vs Map.empty [Some 409])))" by blast
  with 2 r have 3: "get_free_vm_from_pool (cluster ?vs Map.empty [None, Some 409])
      = (Inr (Some ''vm-b''), cluster ?vs' Map.empty [])" by simp
  from l 1 c p 2 l2 3 show ?thesis by blast
qed

section \<open>Deletion\<close>

text \<open>
  Claim C7. With a VM reference in the status, the delete handler deletes that VM: a 404
  or 410 counts as done, any other API error is a temporary error, and no clone is
  touched. Without one, but with a clone operation name, it deletes the clone and is done
  whatever the call answers, and no VM is touched. With neither it is done and the
  cluster is as it was.
\<close>

theorem delete_handler:
  "(\<not> falsy (st ''virtualMachineRef'') \<longrightarrow>
      (api_delete_vm (the (st ''virtualMachineRef'')) w = (Inl s, w') \<longrightarrow>
         cyberdesk_delete st w
           = (if s = 404 \<or> s = 410 then Done else TemporaryError (Some 15), w')
         \<and> vms w' = vms w)
      \<and> (api_delete_vm (the (st ''virtualMachineRef'')) w = (Inr u, w') \<longrightarrow>
         cyberdesk_delete st w = (Done, w')
         \<and> map_of (vms w') (the (st ''virtualMachineRef'')) = None)
      \<and> clones (snd (cyberdesk_delete st w)) = clones w)
   \<and> (falsy (st ''virtualMachineRef'') \<and> \<not> falsy (st ''cloneOperationName'') \<longrightarrow>
      cyberdesk_delete st w = (Done, snd (api_delete_clone (the (st ''cloneOperationName'')) w))
      \<and> (api_delete_clone (the (st ''cloneOperationName'')) w = (Inr u, w') \<longrightarrow>
           clones w' (the (st ''cloneOperationName'')) = None)
      \<and> (api_delete_clone (the (st ''cloneOperationName'')) w = (Inl s, w') \<longrightarrow>
           clones w' = clones w)
      \<and> vms (snd (cyberdesk_delete st w)) = vms w)
   \<and> (falsy (st ''virtualMachineRef'') \<and> falsy (st ''cloneOperationName'') \<longrightarrow>
      cyberdesk_delete st w = (Done, w))"
proof -
  let ?v = "the (st ''virtualMachineRef'')" and ?c = "the (st ''cloneOperationName'')"
  have a1: "cyberdesk_delete st w
           = (if s = 404 \<or> s = 410 then Done else TemporaryError (Some 15), w')
         \<and> vms w' = vms w"
    if "\<not> falsy (st ''virtualMachineRef'')" "api_delete_vm ?v w = (Inl s, w')"
    using that api_delete_vm_cases [OF that(2)] by (simp add: cyberdesk_delete_def)
  have a2: "cyberdesk_delete st w = (Done, w') \<and> map_of (vms w') ?v = None"
    if "\<not> falsy (st ''virtualMachineRef'')" "api_delete_vm ?v w = (Inr u, w')"
    using that api_delete_vm_cases [OF that(2)]
    by (simp add: cyberdesk_delete_def delete_conv')
  have a3: "clones (snd (cyberdesk_delete st w)) = clones w"
    if "\<not> falsy (st ''virtualMachineRef'')"
  proof -
    obtain r w1 where d: "api_delete_vm ?v w = (r, w1)" by (cases "api_delete_vm ?v w")
    from that d api_delete_vm_cases [OF d] show ?thesis
      by (cases r) (simp_all add: cyberdesk_delete_def)
  qed
  have b: "cyberdesk_delete st w = (Done, snd (api_delete_clone ?c w))
      \<and> (api_delete_clone ?c w = (Inr u, w') \<longrightarrow> clones w' ?c = None)
      \<and> (api_delete_clone ?c w = (Inl s, w') \<longrightarrow> clones w' = clones w)
      \<and> vms (snd (cyberdesk_delete st w)) = vms w"
    if "falsy (st ''virtualMachineRef'')" "\<not> falsy (st ''cloneOperationName'')"
  proof -
    obtain r w1 where d: "api_delete_clone ?c w = (r, w1)" by (cases "api_delete_clone ?c w")
    from that d api_delete_clone_cases [OF d] show ?thesis
      by (cases r) (auto simp: cyberdesk_delete_def)
  qed
  have c: "cyberdesk_delete st w = (Done, w)"
    if "falsy (st ''virtualMachineRef'')" "falsy (st ''cloneOperationName'')"
    using that by (simp add: cyberdesk_delete_def)
  from a1 a2 a3 b c show ?thesis by blast
qed

theorem delete_handler_witness:
  "\<not> falsy ([''virtualMachineRef'' \<mapsto> ''vm-a''] ''virtualMachineRef'')
   \<and> api_delete_vm ''vm-a'' (cluster [(''vm-a'', warm_vm)] Map.empty [Some 500])
       = (Inl 500, cluster [(''vm-a'', warm_vm)] Map.empty [])
   \<and> cyberdesk_delete [''virtualMachineRef'' \<mapsto> ''vm-a'']
        (cluster [(''vm-a'', warm_vm)] Map.empty [Some 500])
       = (TemporaryError (Some 15), cluster [(''vm-a'', warm_vm)] Map.empty [])
   \<and> cyberdesk_delete [''virtualMachineRef'' \<mapsto> ''vm-a'']
        (cluster [(''vm-a'', warm_vm)] Map.empty [Some 410])
       = (Done, cluster [(''vm-a'', warm_vm)] Map.empty [])
   \<and> api_delete_vm ''vm-a'' (cluster [(''vm-a'', warm_vm)] Map.empty [])
       = (Inr (), cluster [] Map.empty [])
   \<and> cyberdesk_delete [''virtualMachineRef'' \<mapsto> ''vm-a'']
        (cluster [(''vm-a'', warm_vm)] Map.empty [])
       = (Done, cluster [] Map.empty [])
   \<and> falsy ([''cloneOperationName'' \<mapsto> ''clone-for-desk-5''] ''virtualMachineRef'')
   \<and> \<not> falsy ([''cloneOperationName'' \<mapsto> ''clone-for-desk-5''] ''cloneOperationName'')
   \<and> cyberdesk_delete [''cloneOperationName'' \<mapsto> ''clone-for-desk-5'']
        (cluster [(''vm-a'', warm_vm)] [''clone-for-desk-5'' \<mapsto> clone_body ''desk-5''] [])
       = (Done, cluster [(''vm-a'', warm_vm)] Map.empty [])
   \<and> cyberdesk_delete [''cloneOperationName'' \<mapsto> ''clone-for-desk-5'']
        (cluster [(''vm-a'', warm_vm)] [''clone-for-desk-5'' \<mapsto> clone_body ''desk-5''] [Some 403])
       = (Done, cluster [(''vm-a'', warm_vm)] [''clone-for-desk-5'' \<mapsto> clone_body ''desk-5''] [])
   \<and> falsy (Map.empty ''virtualMachineRef'') \<and> falsy (Map.empty ''cloneOperationName'')
   \<and> cyberdesk_delete Map.empty (cluster [(''vm-a'', warm_vm)] Map.empty [Some 500])
       = (Done, cluster [(''vm-a'', warm_vm)] Map.empty [Some 500])"
proof -
  let ?vs = "[(''vm-a'', warm_vm)]"
  let ?st1 = "[''virtualMachineRef'' \<mapsto> ''vm-a'']"
  let ?st2 = "[''cloneOperationName'' \<mapsto> ''clone-for-desk-5'']"
  let ?cs = "[''clone-for-desk-5'' \<mapsto> clone_body ''desk-5'']"
  have f: "\<not> falsy (?st1 ''virtualMachineRef'')"
    "falsy (?st2 ''virtualMachineRef'')" "\<not> falsy (?st2 ''cloneOperationName'')"
    "falsy ((Map.empty :: status) ''virtualMachineRef'')"
    "falsy ((Map.empty :: status) ''cloneOperationName'')"
    by (simp_all add: falsy_def)
  have d: "api_delete_vm ''vm-a'' (cluster ?vs Map.empty [Some 500])
       = (Inl 500, cluster ?vs Map.empty [])"
    "api_delete_vm ''vm-a'' (cluster ?vs Map.empty [Some 410])
       = (Inl 410, cluster ?vs Map.empty [])"
    "api_delete_vm ''vm-a'' (cluster ?vs Map.empty []) = (Inr (), cluster [] Map.empty [])"
    by (simp_all add: api_delete_vm_def api_call_def cluster_def)
  have c: "api_delete_clone ''clone-for-desk-5'' (cluster ?vs ?cs [])
       = (Inr (), cluster ?vs Map.empty [])"
    "api_delete_clone ''clone-for-desk-5'' (cluster ?vs ?cs [Some 403])
       = (Inl 403, cluster ?vs ?cs [])"
    by (simp_all add: api_delete_clone_def api_call_def cluster_def)
  from delete_handler [where st = ?st1 and w = "cluster ?vs Map.empty [Some 500]" and s = 500
      and w' = "cluster ?vs Map.empty []"] f(1) d(1)
  have r1: "cyberdesk_delete ?st1 (cluster ?vs Map.empty [Some 500])
       = (TemporaryError (Some 15), cluster ?vs Map.empty [])" by simp
  from delete_handler [where st = ?st1 and w = "cluster ?vs Map.empty [Some 410]" and s = 410
      and w' = "cluster ?vs Map.empty []"] f(1) d(2)
  have r2: "cyberdesk_delete ?st1 (cluster ?vs Map.empty [Some 410])
       = (Done, cluster ?vs Map.empty [])" by simp
  from delete_handler [where st = ?st1 and w = "cluster ?vs Map.empty []" and u = "()"
      and w' = "cluster [] Map.empty []"] f(1) d(3)
  have r3: "cyberdesk_delete ?st1 (cluster ?vs Map.empty []) = (Done, cluster [] Map.empty [])"
    by simp
  from delete_handler [where st = ?st2 and w = "cluster ?vs ?cs []"] f(2,3) c(1)
  have r4: "cyberdesk_delete ?st2 (cluster ?vs ?cs []) = (Done, cluster ?vs Map.empty [])"
    by simp
  from delete_handler [where st = ?st2 and w = "cluster ?vs ?cs [Some 403]"] f(2,3) c(2)
  have r5: "cyberdesk_delete ?st2 (cluster ?vs ?cs [Some 403]) = (Done, cluster ?vs ?cs [])"
    by simp
  from delete_handler [where st = Map.empty and w = "cluster ?vs Map.empty [Some 500]"] f(4,5)
  have r6: "cyberdesk_delete Map.empty (cluster ?vs Map.empty [Some 500])
       = (Done, cluster ?vs Map.empty [Some 500])" by simp
  show ?thesis
    using f d(1,3) r1 r2 r3 r4 r5 r6 by blast
qed

section \<open>Expiry\<close>

text \<open>
  Claim C9. The expiry timer runs every 60 seconds. Without an expiry time in the status it
  does nothing. When the clock has reached the expiry time it deletes the Cyberdesk
  resource itself, and no VM or clone; an API error of that call is a temporary error.
  Before the expiry time it does nothing, and an expiry time that does not parse leaves
  the handler done with the cluster as it was.
\<close>

theorem expiry_timer:
  "timeout_check_interval = 60
   \<and> (falsy (st ''expiryTime'') \<longrightarrow>
        cyberdesk_timeout_check parse st n ns now w = (Done, w))
   \<and> (\<not> falsy (st ''expiryTime'') \<and> parse (the (st ''expiryTime'')) = Aware e \<and> e \<le> now \<longrightarrow>
        (api_delete_cyberdesk ns n w = (Inr u, w') \<longrightarrow>
           cyberdesk_timeout_check parse st n ns now w = (Done, w')
           \<and> (ns, n) \<notin> cyberdesks w' \<and> vms w' = vms w \<and> clones w' = clones w)
        \<and> (api_delete_cyberdesk ns n w = (Inl s, w') \<longrightarrow>
           cyberdesk_timeout_check parse st n ns now w = (TemporaryError (Some 30), w')))
   \<and> (\<not> falsy (st ''expiryTime'') \<and> parse (the (st ''expiryTime'')) = Aware e \<and> now < e \<longrightarrow>
        cyberdesk_timeout_check parse st n ns now w = (Done, w))
   \<and> (\<not> falsy (st ''expiryTime'') \<and> parse (the (st ''expiryTime'')) = ValueError \<longrightarrow>
        cyberdesk_timeout_check parse st n ns now w = (Done, w))"
proof -
  have del: "cyberdesk_timeout_check parse st n ns now w = (Done, w')
           \<and> (ns, n) \<notin> cyberdesks w' \<and> vms w' = vms w \<and> clones w' = clones w"
    if "\<not> falsy (st ''expiryTime'')" "parse (the (st ''expiryTime'')) = Aware e" "e \<le> now"
      "api_delete_cyberdesk ns n w = (Inr u, w')"
    using that api_delete_cyberdesk_cases [OF that(4)]
    by (simp add: cyberdesk_timeout_check_def)
  have err: "cyberdesk_timeout_check parse st n ns now w = (TemporaryError (Some 30), w')"
    if "\<not> falsy (st ''expiryTime'')" "parse (the (st ''expiryTime'')) = Aware e" "e \<le> now"
      "api_delete_cyberdesk ns n w = (Inl s, w')"
    using that by (simp add: cyberdesk_timeout_check_def)
  have rest: "falsy (st ''expiryTime'') \<longrightarrow>
        cyberdesk_timeout_check parse st n ns now w = (Done, w)"
    "\<not> falsy (st ''expiryTime'') \<and> parse (the (st ''expiryTime'')) = Aware e \<and> now < e \<longrightarrow>
        cyberdesk_timeout_check parse st n ns now w = (Done, w)"
    "\<not> falsy (st ''expiryTime'') \<and> parse (the (st ''expiryTime'')) = ValueError \<longrightarrow>
        cyberdesk_timeout_check parse st n ns now w = (Done, w)"
    by (simp_all add: cyberdesk_timeout_check_def)
  from del err rest show ?thesis
    by (simp add: timeout_check_interval_def)
qed

theorem expiry_timer_witness:
  "falsy (Map.empty ''expiryTime'')
   \<and> cyberdesk_timeout_check parse_demo Map.empty ''desk-4'' ''default'' 2000000
        (cluster [(''desk-4'', warm_vm)] Map.empty [])
       = (Done, cluster [(''desk-4'', warm_vm)] Map.empty [])
   \<and> \<not> falsy ([''expiryTime'' \<mapsto> ''1970-01-01T00:00:01+00:00''] ''expiryTime'')
   \<and> parse_demo ''1970-01-01T00:00:01+00:00'' = Aware 1000000
   \<and> (1000000 :: int) \<le> 2000000
   \<and> api_delete_cyberdesk ''default'' ''desk-4'' (cluster [(''desk-4'', warm_vm)] Map.empty [])
       = (Inr (), (cluster [(''desk-4'', warm_vm)] Map.empty [])\<lparr>cyberdesks := {}\<rparr>)
   \<and> cyberdesk_timeout_check parse_demo [''expiryTime'' \<mapsto> ''1970-01-01T00:00:01+00:00'']
        ''desk-4'' ''default'' 2000000 (cluster [(''desk-4'', warm_vm)] Map.empty [])
       = (Done, (cluster [(''desk-4'', warm_vm)] Map.empty [])\<lparr>cyberdesks := {}\<rparr>)
   \<and> cyberdesk_timeout_check parse_demo [''expiryTime'' \<mapsto> ''1970-01-01T00:00:01+00:00'']
        ''desk-4'' ''default'' 2000000 (cluster [(''desk-4'', warm_vm)] Map.empty [Some 503])
       = (TemporaryError (Some 30), cluster [(''desk-4'', warm_vm)] Map.empty [])
   \<and> (500000 :: int) < 1000000
   \<and> cyberdesk_timeout_check parse_demo [''expiryTime'' \<mapsto> ''1970-01-01T00:00:01+00:00'']
        ''desk-4'' ''default'' 500000 (cluster [(''desk-4'', warm_vm)] Map.empty [])
       = (Done, cluster [(''desk-4'', warm_vm)] Map.empty [])
   \<and> parse_demo ''soon'' = ValueError
   \<and> cyberdesk_timeout_check parse_demo [''expiryTime'' \<mapsto> ''soon'']
        ''desk-4'' ''default'' 2000000 (cluster [(''desk-4'', warm_vm)] Map.empty [])
       = (Done, cluster [(''desk-4'', warm_vm)] Map.empty [])"
proof -
  let ?w = "cluster [(''desk-4'', warm_vm)] Map.empty"
  let ?st = "[''expiryTime'' \<mapsto> ''1970-01-01T00:00:01+00:00'']"
  have f: "falsy ((Map.empty :: status) ''expiryTime'')" "\<not> falsy (?st ''expiryTime'')"
    "\<not> falsy ([''expiryTime'' \<mapsto> ''soon''] ''expiryTime'')"
    by (simp_all add: falsy_def)
  have p: "parse_demo ''1970-01-01T00:00:01+00:00'' = Aware 1000000"
    "parse_demo ''soon'' = ValueError"
    by (simp_all add: parse_demo_def)
  have d: "api_delete_cyberdesk ''default'' ''desk-4'' (?w [])
       = (Inr (), (?w [])\<lparr>cyberdesks := {}\<rparr>)"
    "api_delete_cyberdesk ''default'' ''desk-4'' (?w [Some 503]) = (Inl 503, ?w [])"
    by (simp_all add: api_delete_cyberdesk_def api_call_def cluster_def)
  from expiry_timer [where st = Map.empty and parse = parse_demo and n = "''desk-4''"
      and ns = "''default''" and now = 2000000 and w = "?w []"] f(1)
  have r1: "cyberdesk_timeout_check parse_demo Map.empty ''desk-4'' ''default'' 2000000 (?w [])
       = (Done, ?w [])" by simp
  from expiry_timer [where st = ?st and parse = parse_demo and n = "''desk-4''"
      and ns = "''default''" and now = 2000000 and w = "?w []" and e = 1000000 and u = "()"
      and w' = "(?w [])\<lparr>cyberdesks := {}\<rparr>"] f(2) p(1) d(1)
  have r2: "cyberdesk_timeout_check parse_demo ?st ''desk-4'' ''default'' 2000000 (?w [])
       = (Done, (?w [])\<lparr>cyberdesks := {}\<rparr>)" by simp
  from expiry_timer [where st = ?st and parse = parse_demo and n = "''desk-4''"
      and ns = "''default''" and now = 2000000 and w = "?w [Some 503]" and e = 1000000
      and s = 503 and w' = "?w []"] f(2) p(1) d(2)
  have r3: "cyberdesk_timeout_check parse_demo ?st ''desk-4'' ''default'' 2000000 (?w [Some 503])
       = (TemporaryError (Some 30), ?w [])" by simp
  from expiry_timer [where st = ?st and parse = parse_demo and n = "''desk-4''"
      and ns = "''default''" and now = 500000 and w = "?w []" and e = 1000000] f(2) p(1)
  have r4: "cyberdesk_timeout_check parse_demo ?st ''desk-4'' ''default'' 500000 (?w [])
       = (Done, ?w [])" by simp
  from expiry_timer [where st = "[''expiryTime'' \<mapsto> ''soon'']" and parse = parse_demo
      and n = "''desk-4''" and ns = "''default''" and now = 2000000 and w = "?w []"] f(3) p(2)
  have r5: "cyberdesk_timeout_check parse_demo [''expiryTime'' \<mapsto> ''soon''] ''desk-4''
       ''default'' 2000000 (?w []) = (Done, ?w [])" by simp
  have n: "(1000000 :: int) \<le> 2000000" "(500000 :: int) < 1000000" by simp_all
  show ?thesis
    using f p d(1) r1 r2 r3 r4 r5 n by blast
qed

section \<open>The create handler, state by state\<close>

lemma api_get_clone_cases:
  "api_get_clone c w = (r, w') \<Longrightarrow>
     vms w' = vms w \<and> vmis w' = vmis w \<and> clones w' = clones w \<and> cyberdesks w' = cyberdesks w
     \<and> gateway w' = gateway w \<and> notified w' = notified w
     \<and> (case r of Inl s \<Rightarrow> True | Inr cl \<Rightarrow> clones w c = Some cl)"
  by (auto simp: api_get_clone_def api_call_def split: list.splits option.splits)

lemma api_create_clone_cases:
  "api_create_clone c b w = (r, w') \<Longrightarrow>
     vms w' = vms w \<and> vmis w' = vmis w \<and> cyberdesks w' = cyberdesks w
     \<and> gateway w' = gateway w \<and> notified w' = notified w
     \<and> (case r of Inl s \<Rightarrow> clones w' = clones w
         | Inr b' \<Rightarrow> clones w c = None \<and> b' = b \<and> clones w' = (clones w)(c \<mapsto> b))"
  by (auto simp: api_create_clone_def api_call_def split: list.splits option.splits)

lemma ensure_cases:
  "ensure_vm_patched_and_running n w = (r, w') \<Longrightarrow>
     clones w' = clones w \<and> vmis w' = vmis w \<and> cyberdesks w' = cyberdesks w
     \<and> gateway w' = gateway w \<and> notified w' = notified w
     \<and> (case r of Inl e \<Rightarrow> e = TemporaryError (Some 10) \<and> vms w' = vms w
         | Inr u \<Rightarrow> (\<exists>v. map_of (vms w) n = Some v
                      \<and> vms w' = AList.update n (merge_patch (ensure_patch_body n) v) (vms w)))"
proof -
  assume a: "ensure_vm_patched_and_running n w = (r, w')"
  obtain pr wa where p: "api_patch_vm n (ensure_patch_body n) w = (pr, wa)"
    by (cases "api_patch_vm n (ensure_patch_body n) w")
  from a p api_patch_vm_cases [OF p] show ?thesis
    by (cases pr) (auto simp: ensure_vm_patched_and_running_def)
qed

lemma get_free_vm_clones:
  "get_free_vm_from_pool w = (r, w') \<Longrightarrow> clones w' = clones w"
proof -
  assume a: "get_free_vm_from_pool w = (r, w')"
  obtain lr wa where l: "api_list_vms w = (lr, wa)" by (cases "api_list_vms w")
  from api_list_vms_cases [OF l] have c1: "clones wa = clones w" by simp
  show ?thesis
  proof (cases lr)
    case (Inl s)
    with a l c1 show ?thesis by (simp add: get_free_vm_from_pool_def)
  next
    case (Inr items)
    obtain cr wb where c: "claim_loop items wa = (cr, wb)" by (cases "claim_loop items wa")
    from claim_loop_clones [OF c] c1 have "clones wb = clones w" by simp
    with a l c Inr show ?thesis by (simp add: get_free_vm_from_pool_def)
  qed
qed

lemma falsy_not_provisioned:
  "falsy (st ''virtualMachineRef'') \<Longrightarrow> \<not> already_provisioned st"
  by (simp add: already_provisioned_def)

lemma cyberdesk_create_clone_check:
  "\<not> already_provisioned st \<Longrightarrow> \<not> falsy (st ''cloneOperationName'') \<Longrightarrow>
     cyberdesk_create isoformat spec n st retry now w
       = check_clone_status isoformat (timeout_ms_of spec) n (the (st ''cloneOperationName''))
           st retry now w"
  by (simp add: cyberdesk_create_def)

lemma cloning_initiated_applied:
  "apply_status_patch (Some (cloning_initiated_status c)) st ''cloneOperationName'' = Some c"
  "apply_status_patch (Some (cloning_initiated_status c)) st ''lastPhase''
     = Some ''CloningInitiated''"
  "apply_status_patch (Some (cloning_initiated_status c)) st ''virtualMachineRef'' = None"
  by (simp_all add: apply_status_patch_def cloning_initiated_status_def)

lemma unbound_applied:
  "apply_status_patch (Some (unbound_status st ph)) st ''lastPhase'' = Some ph"
  "apply_status_patch (Some (unbound_status st ph)) st ''cloneOperationName'' = None"
  "apply_status_patch (Some (unbound_status st ph)) st ''virtualMachineRef'' = None"
  by (simp_all add: apply_status_patch_def unbound_status_def)

lemma bound_applied:
  "apply_status_patch (Some (bound_status v s e ph)) st ''virtualMachineRef'' = Some v"
  "apply_status_patch (Some (bound_status v s e ph)) st ''startTime'' = Some s"
  "apply_status_patch (Some (bound_status v s e ph)) st ''expiryTime'' = Some e"
  "apply_status_patch (Some (bound_status v s e ph)) st ''lastPhase'' = Some ph"
  "apply_status_patch (Some (bound_status v s e ph)) st ''cloneOperationName'' = None"
  by (simp_all add: apply_status_patch_def bound_status_def)

text \<open>
  Claim C3. A fresh Cyberdesk, with neither a VM reference nor a clone operation name, for
  which the pool claim returns no VM: the handler writes the status with the clone
  operation name ``clone-for-'' followed by the desktop name, the phase CloningInitiated and
  no VM reference, asks for a retry after 5 seconds, and leaves the clones of the cluster
  as they were. The clone object is created by a later invocation that finds this status
  and no such clone.
\<close>

theorem fresh_without_pool_vm:
  "falsy (st ''virtualMachineRef'') \<and> falsy (st ''cloneOperationName'')
   \<and> get_free_vm_from_pool w = (Inr None, wa) \<longrightarrow>
     cyberdesk_create isoformat spec n st retry now w
       = (TemporaryError (Some 5), Some (cloning_initiated_status (''clone-for-'' @ n)), wa)
     \<and> clones wa = clones w
     \<and> apply_status_patch (Some (cloning_initiated_status (''clone-for-'' @ n))) st
          ''cloneOperationName'' = Some (''clone-for-'' @ n)
     \<and> apply_status_patch (Some (cloning_initiated_status (''clone-for-'' @ n))) st
          ''lastPhase'' = Some ''CloningInitiated''
     \<and> apply_status_patch (Some (cloning_initiated_status (''clone-for-'' @ n))) st
          ''virtualMachineRef'' = None
     \<and> (api_get_clone (''clone-for-'' @ n) wb = (Inl 404, wc)
        \<and> api_create_clone (''clone-for-'' @ n) (clone_body n) wc = (Inr b, wd) \<longrightarrow>
          cyberdesk_create isoformat spec n
            (apply_status_patch (Some (cloning_initiated_status (''clone-for-'' @ n))) st)
            retry' now' wb = (TemporaryError (Some 5), None, wd)
          \<and> clones wd (''clone-for-'' @ n) = Some (clone_body n))"
proof -
  let ?c = "''clone-for-'' @ n"
  let ?st' = "apply_status_patch (Some (cloning_initiated_status ?c)) st"
  have first: "cyberdesk_create isoformat spec n st retry now w
       = (TemporaryError (Some 5), Some (cloning_initiated_status ?c), wa)
     \<and> clones wa = clones w"
    if "falsy (st ''virtualMachineRef'')" "falsy (st ''cloneOperationName'')"
      "get_free_vm_from_pool w = (Inr None, wa)"
    using that falsy_not_provisioned [of st] get_free_vm_clones [OF that(3)]
    by (simp add: cyberdesk_create_def Let_def falsy_def [of None])
  have later: "cyberdesk_create isoformat spec n ?st' retry' now' wb
         = (TemporaryError (Some 5), None, wd)
       \<and> clones wd ?c = Some (clone_body n)"
    if g: "api_get_clone ?c wb = (Inl 404, wc)"
      and c: "api_create_clone ?c (clone_body n) wc = (Inr b, wd)"
  proof -
    have np: "\<not> already_provisioned ?st'"
      using falsy_not_provisioned [of ?st'] by (simp add: cloning_initiated_applied falsy_def)
    have nf: "\<not> falsy (?st' ''cloneOperationName'')"
      by (simp add: cloning_initiated_applied falsy_def)
    from api_create_clone_cases [OF c] have "clones wd ?c = Some (clone_body n)" by simp
    moreover from g c have "check_clone_status isoformat (timeout_ms_of spec) n ?c ?st' retry' now' wb
         = (TemporaryError (Some 5), None, wd)"
      by (simp add: check_clone_status_def)
    ultimately show ?thesis
      using cyberdesk_create_clone_check [OF np nf, of isoformat spec n retry' now' wb]
      by (simp add: cloning_initiated_applied)
  qed
  from first later show ?thesis
    by (simp add: cloning_initiated_applied)
qed

theorem fresh_without_pool_vm_witness:
  "falsy (Map.empty ''virtualMachineRef'') \<and> falsy (Map.empty ''cloneOperationName'')
   \<and> get_free_vm_from_pool (cluster [(''vm-a'', warm_vm)] Map.empty [None, Some 409])
       = (Inr None, cluster [(''vm-a'', warm_vm)] Map.empty [])
   \<and> cyberdesk_create isoformat_demo Map.empty ''desk-2'' Map.empty 0 0
        (cluster [(''vm-a'', warm_vm)] Map.empty [None, Some 409])
       = (TemporaryError (Some 5), Some (cloning_initiated_status ''clone-for-desk-2''),
          cluster [(''vm-a'', warm_vm)] Map.empty [])
   \<and> api_get_clone ''clone-for-desk-2'' (cluster [(''vm-a'', warm_vm)] Map.empty [])
       = (Inl 404, cluster [(''vm-a'', warm_vm)] Map.empty [])
   \<and> api_create_clone ''clone-for-desk-2'' (clone_body ''desk-2'')
        (cluster [(''vm-a'', warm_vm)] Map.empty [])
       = (Inr (clone_body ''desk-2''),
          cluster [(''vm-a'', warm_vm)] [''clone-for-desk-2'' \<mapsto> clone_body ''desk-2''] [])
   \<and> cyberdesk_create isoformat_demo Map.empty ''desk-2''
        (apply_status_patch (Some (cloning_initiated_status ''clone-for-desk-2'')) Map.empty)
        1 5000000 (cluster [(''vm-a'', warm_vm)] Map.empty [])
       = (TemporaryError (Some 5), None,
          cluster [(''vm-a'', warm_vm)] [''clone-for-desk-2'' \<mapsto> clone_body ''desk-2''] [])"
proof -
  let ?vs = "[(''vm-a'', warm_vm)]"
  let ?cs = "[''clone-for-desk-2'' \<mapsto> clone_body ''desk-2'']"
  have f: "falsy ((Map.empty :: status) ''virtualMachineRef'')"
    "falsy ((Map.empty :: status) ''cloneOperationName'')"
    by (simp_all add: falsy_def)
  have l: "api_list_vms (cluster ?vs Map.empty [None, Some 409])
       = (Inr ?vs, cluster ?vs Map.empty [Some 409])"
    by (simp add: api_list_vms_def api_call_def cluster_def warm_vm_def)
  have p: "api_patch_vm ''vm-a'' (claim_patch_body (vm_labels warm_vm))
        (cluster ?vs Map.empty [Some 409]) = (Inl 409, cluster ?vs Map.empty [])"
    by (simp add: api_patch_vm_def api_call_def cluster_def)
  have c: "candidate (''vm-a'', warm_vm)"
    by (simp add: candidate_def warm_vm_def)
  from p c have "claim_loop ?vs (cluster ?vs Map.empty [Some 409])
       = (None, cluster ?vs Map.empty [])"
    by (simp add: candidate_def)
  with l have g: "get_free_vm_from_pool (cluster ?vs Map.empty [None, Some 409])
       = (Inr None, cluster ?vs Map.empty [])"
    by (simp add: get_free_vm_from_pool_def)
  have gc: "api_get_clone ''clone-for-desk-2'' (cluster ?vs Map.empty [])
       = (Inl 404, cluster ?vs Map.empty [])"
    by (simp add: api_get_clone_def api_call_def cluster_def)
  have cc: "api_create_clone ''clone-for-desk-2'' (clone_body ''desk-2'') (cluster ?vs Map.empty [])
       = (Inr (clone_body ''desk-2''), cluster ?vs ?cs [])"
    by (simp add: api_create_clone_def api_call_def cluster_def)
  from fresh_without_pool_vm [where st = Map.empty and n = "''desk-2''"
      and w = "cluster ?vs Map.empty [None, Some 409]" and wa = "cluster ?vs Map.empty []"
      and wb = "cluster ?vs Map.empty []" and wc = "cluster ?vs Map.empty []"
      and wd = "cluster ?vs ?cs []" and b = "clone_body ''desk-2''"
      and isoformat = isoformat_demo and spec = Map.empty and retry = 0 and now = 0
      and retry' = 1 and now' = 5000000] f g gc cc
  have "cyberdesk_create isoformat_demo Map.empty ''desk-2'' Map.empty 0 0
        (cluster ?vs Map.empty [None, Some 409])
       = (TemporaryError (Some 5), Some (cloning_initiated_status ''clone-for-desk-2''),
          cluster ?vs Map.empty [])"
    and "cyberdesk_create isoformat_demo Map.empty ''desk-2''
        (apply_status_patch (Some (cloning_initiated_status ''clone-for-desk-2'')) Map.empty)
        1 5000000 (cluster ?vs Map.empty [])
       = (TemporaryError (Some 5), None, cluster ?vs ?cs [])"
    by simp_all
  with f g gc cc show ?thesis by blast
qed

text \<open>
  Claim C2. The clone is found and its phase is none of Succeeded, Failed and Unknown.
  From retry 20 on the handler deletes the clone, whatever the delete call answers, writes
  the phase CloneTimeout with the clone operation name and the VM reference removed, and
  raises a permanent error. Below 20 it only raises a temporary error, and nothing in the
  cluster changes.
\<close>

theorem clone_timeout:
  "\<not> already_provisioned st \<and> \<not> falsy (st ''cloneOperationName'')
   \<and> api_get_clone (the (st ''cloneOperationName'')) w = (Inr cl, wa)
   \<and> clone_phase cl \<notin> set [Some ''Succeeded'', Some ''Failed'', Some ''Unknown''] \<longrightarrow>
     (20 \<le> retry \<longrightarrow>
        cyberdesk_create isoformat spec n st retry now w
          = (PermanentError, Some (unbound_status st ''CloneTimeout''),
             snd (api_delete_clone (the (st ''cloneOperationName'')) wa))
        \<and> (api_delete_clone (the (st ''cloneOperationName'')) wa = (Inr u, wb) \<longrightarrow>
             clones wb (the (st ''cloneOperationName'')) = None)
        \<and> apply_status_patch (Some (unbound_status st ''CloneTimeout'')) st ''lastPhase''
            = Some ''CloneTimeout''
        \<and> apply_status_patch (Some (unbound_status st ''CloneTimeout'')) st
            ''cloneOperationName'' = None
        \<and> apply_status_patch (Some (unbound_status st ''CloneTimeout'')) st
            ''virtualMachineRef'' = None)
     \<and> (retry < 20 \<longrightarrow>
        cyberdesk_create isoformat spec n st retry now w = (TemporaryError (Some 5), None, wa)
        \<and> clones wa = clones w \<and> vms wa = vms w)"
proof -
  let ?c = "the (st ''cloneOperationName'')"
  have timeout: "cyberdesk_create isoformat spec n st retry now w
          = (PermanentError, Some (unbound_status st ''CloneTimeout''),
             snd (api_delete_clone ?c wa))"
    if "\<not> already_provisioned st" "\<not> falsy (st ''cloneOperationName'')"
      "api_get_clone ?c w = (Inr cl, wa)"
      "clone_phase cl \<notin> set [Some ''Succeeded'', Some ''Failed'', Some ''Unknown'']"
      "20 \<le> retry"
    using that(3-5) cyberdesk_create_clone_check [OF that(1,2), of isoformat spec n retry now w]
    by (simp add: check_clone_status_def split: prod.splits)
  have gone: "clones wb ?c = None" if "api_delete_clone ?c wa = (Inr u, wb)"
    using api_delete_clone_cases [OF that] by simp
  have wait: "cyberdesk_create isoformat spec n st retry now w = (TemporaryError (Some 5), None, wa)
        \<and> clones wa = clones w \<and> vms wa = vms w"
    if "\<not> already_provisioned st" "\<not> falsy (st ''cloneOperationName'')"
      "api_get_clone ?c w = (Inr cl, wa)"
      "clone_phase cl \<notin> set [Some ''Succeeded'', Some ''Failed'', Some ''Unknown'']"
      "retry < 20"
    using that(3-5) cyberdesk_create_clone_check [OF that(1,2), of isoformat spec n retry now w]
      api_get_clone_cases [OF that(3)]
    by (simp add: check_clone_status_def)
  from timeout gone wait show ?thesis
    by (simp add: unbound_applied)
qed

theorem clone_timeout_witness:
  "\<not> already_provisioned cloning_status \<and> \<not> falsy (cloning_status ''cloneOperationName'')
   \<and> api_get_clone (the (cloning_status ''cloneOperationName''))
        (cluster [] [''clone-for-desk-2'' \<mapsto> clone_in_phase ''desk-2'' ''SnapshotInProgress''] [])
       = (Inr (clone_in_phase ''desk-2'' ''SnapshotInProgress''),
          cluster [] [''clone-for-desk-2'' \<mapsto> clone_in_phase ''desk-2'' ''SnapshotInProgress''] [])
   \<and> clone_phase (clone_in_phase ''desk-2'' ''SnapshotInProgress'')
       \<notin> set [Some ''Succeeded'', Some ''Failed'', Some ''Unknown'']
   \<and> cyberdesk_create isoformat_demo Map.empty ''desk-2'' cloning_status 20 0
        (cluster [] [''clone-for-desk-2'' \<mapsto> clone_in_phase ''desk-2'' ''SnapshotInProgress''] [])
       = (PermanentError, Some (unbound_status cloning_status ''CloneTimeout''),
          cluster [] Map.empty [])
   \<and> cyberdesk_create isoformat_demo Map.empty ''desk-2'' cloning_status 19 0
        (cluster [] [''clone-for-desk-2'' \<mapsto> clone_in_phase ''desk-2'' ''SnapshotInProgress''] [])
       = (TemporaryError (Some 5), None,
          cluster [] [''clone-for-desk-2'' \<mapsto> clone_in_phase ''desk-2'' ''SnapshotInProgress''] [])"
proof -
  let ?cl = "clone_in_phase ''desk-2'' ''SnapshotInProgress''"
  let ?w = "cluster [] [''clone-for-desk-2'' \<mapsto> ?cl] []"
  have np: "\<not> already_provisioned cloning_status"
    by (simp add: already_provisioned_def cloning_status_def falsy_def)
  have nf: "\<not> falsy (cloning_status ''cloneOperationName'')"
    by (simp add: cloning_status_def falsy_def)
  have c: "the (cloning_status ''cloneOperationName'') = ''clone-for-desk-2''"
    by (simp add: cloning_status_def)
  have g: "api_get_clone (the (cloning_status ''cloneOperationName'')) ?w = (Inr ?cl, ?w)"
    by (simp add: c api_get_clone_def api_call_def cluster_def)
  have ph: "clone_phase ?cl \<notin> set [Some ''Succeeded'', Some ''Failed'', Some ''Unknown'']"
    by (simp add: clone_in_phase_def)
  have d: "api_delete_clone (the (cloning_status ''cloneOperationName'')) ?w
       = (Inr (), cluster [] Map.empty [])"
    by (simp add: c api_delete_clone_def api_call_def cluster_def)
  from clone_timeout [where st = cloning_status and w = ?w and cl = ?cl and wa = ?w
      and retry = 20 and isoformat = isoformat_demo and spec = Map.empty and n = "''desk-2''"
      and now = 0] np nf g ph d
  have r1: "cyberdesk_create isoformat_demo Map.empty ''desk-2'' cloning_status 20 0 ?w
       = (PermanentError, Some (unbound_status cloning_status ''CloneTimeout''),
          cluster [] Map.empty [])"
    by simp
  from clone_timeout [where st = cloning_status and w = ?w and cl = ?cl and wa = ?w
      and retry = 19 and isoformat = isoformat_demo and spec = Map.empty and n = "''desk-2''"
      and now = 0] np nf g ph
  have r2: "cyberdesk_create isoformat_demo Map.empty ''desk-2'' cloning_status 19 0 ?w
       = (TemporaryError (Some 5), None, ?w)"
    by simp
  from np nf g ph r1 r2 show ?thesis by blast
qed

section \<open>The status patches of the create handler\<close>

lemma get_free_vm_error:
  "get_free_vm_from_pool w = (Inl e, w') \<Longrightarrow> e = TemporaryError (Some 15)"
  by (auto simp: get_free_vm_from_pool_def split: prod.splits sum.splits)

lemma reconcile_bound_patch:
  assumes "reconcile_bound isoformat t v st now w = (out, p, w')"
  shows "(p = None \<and> out \<noteq> Done)
    \<or> (out = Done \<and> (st ''startTime'' = None \<or> st ''expiryTime'' = None)
        \<and> (\<exists>e. datetime_add_ms now t = Some e
             \<and> p = Some ((splat st ++ [''startTime'' \<mapsto> Some (isoformat now),
                                        ''expiryTime'' \<mapsto> Some (isoformat e)])
                          (''cloneOperationName'' := None))))
    \<or> (out = Done \<and> st ''startTime'' \<noteq> None \<and> st ''expiryTime'' \<noteq> None
        \<and> p = Some ((splat st)(''cloneOperationName'' := None)))"
proof -
  obtain r wa where e: "ensure_vm_patched_and_running v w = (r, wa)"
    by (cases "ensure_vm_patched_and_running v w")
  show ?thesis
  proof (cases r)
    case (Inl err)
    with assms e ensure_cases [OF e] show ?thesis by (simp add: reconcile_bound_def)
  next
    case (Inr u)
    with assms e show ?thesis
      by (cases "datetime_add_ms now t") (auto simp: reconcile_bound_def split: if_splits)
  qed
qed

lemma assign_from_pool_patch:
  assumes "assign_from_pool isoformat t n v now w = (out, p, w')"
  shows "(p = None \<and> out \<noteq> Done)
    \<or> (out = Done \<and> (\<exists>e. datetime_add_ms now t = Some e
          \<and> p = Some (bound_status v (isoformat now) (isoformat e) ''AssignedFromPool'')))"
  using assms
  by (auto simp: assign_from_pool_def Let_def
      split: prod.splits sum.splits option.splits if_splits)

lemma check_clone_status_patch:
  assumes "check_clone_status isoformat t n c st retry now w = (out, p, w')"
  shows "(p = None \<and> out \<noteq> Done)
    \<or> (out = Done \<and> (\<exists>e. datetime_add_ms now t = Some e
          \<and> p = Some (bound_status n (isoformat now) (isoformat e) ''Cloned'')))
    \<or> (out = PermanentError \<and> (\<exists>ph. p = Some (unbound_status st ph)))"
proof -
  obtain r wa where g: "api_get_clone c w = (r, wa)" by (cases "api_get_clone c w")
  show ?thesis
  proof (cases r)
    case (Inl s)
    with assms g show ?thesis
      by (auto simp: check_clone_status_def split: if_splits prod.splits sum.splits)
  next
    case (Inr cl)
    obtain er wb where e: "ensure_vm_patched_and_running n wa = (er, wb)"
      by (cases "ensure_vm_patched_and_running n wa")
    from assms g Inr e ensure_cases [OF e] show ?thesis
      by (cases er)
        (auto simp: check_clone_status_def Let_def split: if_splits prod.splits option.splits)
  qed
qed

lemma cyberdesk_create_patch:
  assumes "cyberdesk_create isoformat spec n st retry now w = (out, p, w')"
  shows "(p = None \<and> out \<noteq> Done)
    \<or> (already_provisioned st \<and> out = Done
        \<and> (st ''startTime'' = None \<or> st ''expiryTime'' = None)
        \<and> (\<exists>e. datetime_add_ms now (timeout_ms_of spec) = Some e
             \<and> p = Some ((splat st ++ [''startTime'' \<mapsto> Some (isoformat now),
                                        ''expiryTime'' \<mapsto> Some (isoformat e)])
                          (''cloneOperationName'' := None))))
    \<or> (already_provisioned st \<and> out = Done
        \<and> st ''startTime'' \<noteq> None \<and> st ''expiryTime'' \<noteq> None
        \<and> p = Some ((splat st)(''cloneOperationName'' := None)))
    \<or> (\<not> already_provisioned st \<and> out = Done
        \<and> (\<exists>v e ph. datetime_add_ms now (timeout_ms_of spec) = Some e
             \<and> p = Some (bound_status v (isoformat now) (isoformat e) ph)))
    \<or> (\<not> already_provisioned st \<and> out = PermanentError
        \<and> (\<exists>ph. p = Some (unbound_status st ph)))
    \<or> (\<not> already_provisioned st \<and> out = TemporaryError (Some 5)
        \<and> p = Some (cloning_initiated_status (''clone-for-'' @ n)))"
proof (cases "already_provisioned st")
  case True
  with assms have "reconcile_bound isoformat (timeout_ms_of spec) (the (st ''virtualMachineRef''))
      st now w = (out, p, w')"
    by (simp add: cyberdesk_create_def)
  from reconcile_bound_patch [OF this] True show ?thesis
    by (elim disjE conjE exE) auto
next
  case np: False
  show ?thesis
  proof (cases "falsy (st ''cloneOperationName'')")
    case False
    with assms np have "check_clone_status isoformat (timeout_ms_of spec) n
        (the (st ''cloneOperationName'')) st retry now w = (out, p, w')"
      by (simp add: cyberdesk_create_def)
    from check_clone_status_patch [OF this] np show ?thesis
      by (elim disjE conjE exE) auto
  next
    case True
    obtain r wa where g: "get_free_vm_from_pool w = (r, wa)"
      by (cases "get_free_vm_from_pool w")
    show ?thesis
    proof (cases r)
      case (Inl e)
      with assms np True g get_free_vm_error [of w e wa] show ?thesis
        by (simp add: cyberdesk_create_def)
    next
      case (Inr assigned)
      show ?thesis
      proof (cases "falsy assigned")
        case True
        with assms np \<open>falsy (st ''cloneOperationName'')\<close> g Inr show ?thesis
          by (simp add: cyberdesk_create_def)
      next
        case False
        with assms np \<open>falsy (st ''cloneOperationName'')\<close> g Inr
        have "assign_from_pool isoformat (timeout_ms_of spec) n (the assigned) now wa
            = (out, p, w')"
          by (simp add: cyberdesk_create_def)
        from assign_from_pool_patch [OF this] np show ?thesis
          by (elim disjE conjE exE) auto
      qed
    qed
  qed
qed

lemma splat_applied:
  "apply_status_patch (Some ((splat st)(''cloneOperationName'' := None))) st = st"
  by (rule ext) (simp add: apply_status_patch_def splat_def split: option.splits)

lemma splat_times_applied:
  "apply_status_patch
     (Some ((splat st ++ [''startTime'' \<mapsto> Some s, ''expiryTime'' \<mapsto> Some e])
            (''cloneOperationName'' := None))) st
   = st(''startTime'' \<mapsto> s, ''expiryTime'' \<mapsto> e)"
  by (rule ext) (simp add: apply_status_patch_def splat_def map_add_def split: option.splits)

lemma cyberdesk_create_exclusive:
  assumes "cyberdesk_create isoformat spec n st retry now w = (out, p, w')"
    and "exclusive st"
  shows "exclusive (apply_status_patch p st)"
  using cyberdesk_create_patch [OF assms(1)] assms(2)
  by (elim disjE conjE exE)
    (auto simp: exclusive_def apply_status_patch_def splat_def bound_status_def
      unbound_status_def cloning_initiated_status_def map_add_def split: option.splits)

lemma reachable_exclusive: "reachable_status st \<Longrightarrow> exclusive st"
proof (induction rule: reachable_status.induct)
  case initial
  show ?case by (simp add: exclusive_def)
next
  case (reconciled st isoformat spec n retry now w out p w')
  from cyberdesk_create_exclusive [OF reconciled.hyps(2) reconciled.IH] show ?case .
qed

text \<open>Runs of the handler in the scenarios.\<close>

lemma scenario_fresh:
  "cyberdesk_create isoformat_demo Map.empty ''desk-2'' Map.empty 0 0 (cluster [] Map.empty [])
     = (TemporaryError (Some 5), Some (cloning_initiated_status ''clone-for-desk-2''),
        cluster [] Map.empty [])"
  by (simp add: cyberdesk_create_def already_provisioned_def falsy_def
      get_free_vm_from_pool_def api_list_vms_def api_call_def cluster_def)

lemma cloning_status_reached:
  "apply_status_patch (Some (cloning_initiated_status ''clone-for-desk-2'')) Map.empty
     = cloning_status"
  by (rule ext)
    (simp add: apply_status_patch_def cloning_initiated_status_def cloning_status_def)

lemma scenario_clone_success:
  "cyberdesk_create isoformat_demo Map.empty ''desk-2'' cloning_status 3 0
     (cluster [(''desk-2'', restored_vm)]
        [''clone-for-desk-2'' \<mapsto> clone_in_phase ''desk-2'' ''Succeeded''] [])
   = (Done,
      Some (bound_status ''desk-2'' ''1970-01-01T00:00:00+00:00''
             ''1970-01-01T01:00:00+00:00'' ''Cloned''),
      cluster [(''desk-2'', merge_patch (ensure_patch_body ''desk-2'') restored_vm)]
        [''clone-for-desk-2'' \<mapsto> clone_in_phase ''desk-2'' ''Succeeded''] [])"
proof -
  have np: "\<not> already_provisioned cloning_status"
    by (simp add: already_provisioned_def cloning_status_def falsy_def)
  have nf: "\<not> falsy (cloning_status ''cloneOperationName'')"
    by (simp add: cloning_status_def falsy_def)
  have c: "the (cloning_status ''cloneOperationName'') = ''clone-for-desk-2''"
    by (simp add: cloning_status_def)
  have t: "datetime_add_ms 0 (timeout_ms_of Map.empty) = Some 3600000000"
    by (simp add: datetime_add_ms_def timeout_ms_of_def dict_get_def DATETIME_MIN_def
        DATETIME_MAX_def)
  have i: "isoformat_demo 0 = ''1970-01-01T00:00:00+00:00''"
    "isoformat_demo 3600000000 = ''1970-01-01T01:00:00+00:00''"
    by (simp_all add: isoformat_demo_def)
  show ?thesis
    unfolding cyberdesk_create_clone_check [OF np nf] c
    by (simp add: check_clone_status_def t i api_get_clone_def api_call_def cluster_def
        clone_in_phase_def ensure_vm_patched_and_running_def api_patch_vm_def)
qed

lemma scenario_repatch:
  "cyberdesk_create isoformat_demo Map.empty ''desk-1'' pool_bound_status 0 7
     (cluster [(''vm-a'', assigned_vm)] Map.empty [])
   = (Done, Some ((splat pool_bound_status)(''cloneOperationName'' := None)),
      cluster [(''vm-a'', merge_patch (ensure_patch_body ''vm-a'') assigned_vm)] Map.empty [])"
proof -
  have ap: "already_provisioned pool_bound_status"
    by (simp add: already_provisioned_def pool_bound_status_def falsy_def)
  have v: "the (pool_bound_status ''virtualMachineRef'') = ''vm-a''"
    "pool_bound_status ''startTime'' \<noteq> None" "pool_bound_status ''expiryTime'' \<noteq> None"
    by (simp_all add: pool_bound_status_def)
  have e: "ensure_vm_patched_and_running ''vm-a'' (cluster [(''vm-a'', assigned_vm)] Map.empty [])
     = (Inr (), cluster [(''vm-a'', merge_patch (ensure_patch_body ''vm-a'') assigned_vm)]
          Map.empty [])"
    by (simp add: ensure_vm_patched_and_running_def api_patch_vm_def api_call_def cluster_def)
  from ap v e show ?thesis
    by (auto simp: cyberdesk_create_def reconcile_bound_def)
qed

text \<open>
  Claim C6. In every status the handler can write, the VM reference and the clone operation
  name are not both set. For every invocation from such a status that writes a patch, the
  status after the patch has not both either; when the patch sets the VM reference, the
  status after it has no clone operation name, and when the patch sets the clone operation
  name, the status after it has no VM reference.
\<close>

theorem status_mutual_exclusion:
  "reachable_status st \<Longrightarrow>
     \<not> (st ''virtualMachineRef'' \<noteq> None \<and> st ''cloneOperationName'' \<noteq> None)
     \<and> (cyberdesk_create isoformat spec n st retry now w = (out, Some body, w') \<longrightarrow>
          \<not> (apply_status_patch (Some body) st ''virtualMachineRef'' \<noteq> None
             \<and> apply_status_patch (Some body) st ''cloneOperationName'' \<noteq> None)
          \<and> (body ''virtualMachineRef'' \<notin> {None, Some None} \<longrightarrow>
               apply_status_patch (Some body) st ''cloneOperationName'' = None)
          \<and> (body ''cloneOperationName'' \<notin> {None, Some None} \<longrightarrow>
               apply_status_patch (Some body) st ''virtualMachineRef'' = None))"
proof -
  assume r: "reachable_status st"
  from reachable_exclusive [OF r] have ex: "exclusive st" .
  have step: "\<not> (apply_status_patch (Some body) st ''virtualMachineRef'' \<noteq> None
             \<and> apply_status_patch (Some body) st ''cloneOperationName'' \<noteq> None)
          \<and> (body ''virtualMachineRef'' \<notin> {None, Some None} \<longrightarrow>
               apply_status_patch (Some body) st ''cloneOperationName'' = None)
          \<and> (body ''cloneOperationName'' \<notin> {None, Some None} \<longrightarrow>
               apply_status_patch (Some body) st ''virtualMachineRef'' = None)"
    if c: "cyberdesk_create isoformat spec n st retry now w = (out, Some body, w')"
  proof -
    from cyberdesk_create_exclusive [OF c ex]
    have ex': "exclusive (apply_status_patch (Some body) st)" .
    have v: "apply_status_patch (Some body) st ''virtualMachineRef'' \<noteq> None"
      if "body ''virtualMachineRef'' \<notin> {None, Some None}"
      using that by (auto simp: apply_status_patch_def split: option.splits)
    have cl: "apply_status_patch (Some body) st ''cloneOperationName'' \<noteq> None"
      if "body ''cloneOperationName'' \<notin> {None, Some None}"
      using that by (auto simp: apply_status_patch_def split: option.splits)
    from ex' v cl show ?thesis by (auto simp: exclusive_def)
  qed
  from ex step show ?thesis by (auto simp: exclusive_def)
qed

theorem status_mutual_exclusion_witness:
  "reachable_status cloning_status
   \<and> \<not> (cloning_status ''virtualMachineRef'' \<noteq> None
        \<and> cloning_status ''cloneOperationName'' \<noteq> None)
   \<and> cyberdesk_create isoformat_demo Map.empty ''desk-2'' cloning_status 3 0
        (cluster [(''desk-2'', restored_vm)]
           [''clone-for-desk-2'' \<mapsto> clone_in_phase ''desk-2'' ''Succeeded''] [])
      = (Done,
         Some (bound_status ''desk-2'' ''1970-01-01T00:00:00+00:00''
                ''1970-01-01T01:00:00+00:00'' ''Cloned''),
         cluster [(''desk-2'', merge_patch (ensure_patch_body ''desk-2'') restored_vm)]
           [''clone-for-desk-2'' \<mapsto> clone_in_phase ''desk-2'' ''Succeeded''] [])
   \<and> bound_status ''desk-2'' ''1970-01-01T00:00:00+00:00'' ''1970-01-01T01:00:00+00:00''
        ''Cloned'' ''virtualMachineRef'' \<notin> {None, Some None}
   \<and> apply_status_patch
        (Some (bound_status ''desk-2'' ''1970-01-01T00:00:00+00:00''
                ''1970-01-01T01:00:00+00:00'' ''Cloned''))
        cloning_status ''cloneOperationName'' = None
   \<and> apply_status_patch
        (Some (bound_status ''desk-2'' ''1970-01-01T00:00:00+00:00''
                ''1970-01-01T01:00:00+00:00'' ''Cloned''))
        cloning_status ''virtualMachineRef'' = Some ''desk-2''"
proof -
  let ?b = "bound_status ''desk-2'' ''1970-01-01T00:00:00+00:00''
                ''1970-01-01T01:00:00+00:00'' ''Cloned''"
  from reachable_status.reconciled [OF reachable_status.initial scenario_fresh]
  have r: "reachable_status cloning_status"
    by (simp add: cloning_status_reached)
  have v: "?b ''virtualMachineRef'' \<notin> {None, Some None}"
    by (simp add: bound_status_def)
  have a: "apply_status_patch (Some ?b) cloning_status ''virtualMachineRef'' = Some ''desk-2''"
    by (simp add: bound_applied)
  from status_mutual_exclusion [OF r, where isoformat = isoformat_demo and spec = Map.empty
      and n = "''desk-2''" and retry = 3 and now = 0 and out = Done and body = ?b
      and w = "cluster [(''desk-2'', restored_vm)]
           [''clone-for-desk-2'' \<mapsto> clone_in_phase ''desk-2'' ''Succeeded''] []"
      and w' = "cluster [(''desk-2'', merge_patch (ensure_patch_body ''desk-2'') restored_vm)]
           [''clone-for-desk-2'' \<mapsto> clone_in_phase ''desk-2'' ''Succeeded''] []"]
    scenario_clone_success v
  have "\<not> (cloning_status ''virtualMachineRef'' \<noteq> None
        \<and> cloning_status ''cloneOperationName'' \<noteq> None)"
    and "apply_status_patch (Some ?b) cloning_status ''cloneOperationName'' = None"
    by blast+
  with r scenario_clone_success v a show ?thesis by blast
qed

section \<open>Post-bind finalization of the bound VM\<close>

lemma ensure_finalizes:
  assumes "ensure_vm_patched_and_running n w = (Inr u, w')"
  shows "\<exists>v. map_of (vms w) n = Some v
           \<and> map_of (vms w') n = Some (merge_patch (ensure_patch_body n) v)"
  using ensure_cases [OF assms] by (auto simp: update_conv')

lemma clone_path_done:
  assumes "check_clone_status isoformat t n c st retry now w = (Done, p, w')"
  shows "\<exists>wa u. vms wa = vms w \<and> ensure_vm_patched_and_running n wa = (Inr u, w')"
proof -
  obtain r wa where g: "api_get_clone c w = (r, wa)" by (cases "api_get_clone c w")
  from api_get_clone_cases [OF g] have v: "vms wa = vms w" by simp
  show ?thesis
  proof (cases r)
    case (Inl s)
    with assms g show ?thesis
      by (auto simp: check_clone_status_def split: if_splits prod.splits sum.splits)
  next
    case (Inr cl)
    obtain er wb where e: "ensure_vm_patched_and_running n wa = (er, wb)"
      by (cases "ensure_vm_patched_and_running n wa")
    from assms g Inr e ensure_cases [OF e] have "\<exists>u. er = Inr u \<and> wb = w'"
      by (cases er)
        (auto simp: check_clone_status_def Let_def split: if_splits prod.splits option.splits)
    with e v show ?thesis by auto
  qed
qed

lemma bound_path_done:
  assumes "reconcile_bound isoformat t v st now w = (Done, p, w')"
  shows "\<exists>u. ensure_vm_patched_and_running v w = (Inr u, w')"
proof -
  obtain er wb where e: "ensure_vm_patched_and_running v w = (er, wb)"
    by (cases "ensure_vm_patched_and_running v w")
  from ensure_cases [OF e] assms e show ?thesis
    by (cases er) (auto simp: reconcile_bound_def split: if_splits option.splits)
qed

lemma merge_ensure_patch:
  "vm_labels (merge_patch (ensure_patch_body n) v) ''managed-by'' = Some MANAGED_BY"
  "vm_template_labels (merge_patch (ensure_patch_body n) v) ''app'' = Some ''cyberdesk''"
  "vm_template_labels (merge_patch (ensure_patch_body n) v) ''cyberdesk-instance'' = Some n"
  "vm_template_labels (merge_patch (ensure_patch_body n) v) ''managed-by'' = Some MANAGED_BY"
  "vm_template_labels (merge_patch (ensure_patch_body n) v) ''kubevirt.io/domain'' = Some n"
  "vm_hostname (merge_patch (ensure_patch_body n) v) = Some n"
  "vm_runStrategy (merge_patch (ensure_patch_body n) v) = Some ''Always''"
  "k \<noteq> ''managed-by'' \<Longrightarrow> vm_labels (merge_patch (ensure_patch_body n) v) k = vm_labels v k"
  "k \<notin> set [''app'', ''cyberdesk-instance'', ''managed-by'', ''kubevirt.io/domain''] \<Longrightarrow>
     vm_template_labels (merge_patch (ensure_patch_body n) v) k = vm_template_labels v k"
  "dom (vm_labels v) \<subseteq> dom (vm_labels (merge_patch (ensure_patch_body n) v))"
  "dom (vm_template_labels v) \<subseteq> dom (vm_template_labels (merge_patch (ensure_patch_body n) v))"
  by (auto simp: merge_patch_def ensure_patch_body_def map_add_def)

text \<open>
  Claim C1, as the code has it. When the handler returns on the clone-success path, or on
  the re-patch of a bound desktop whose VM has the name of the desktop, the VM of that name
  is patched: its top-level labels have \<^verbatim>\<open>managed-by\<close>; its template labels have \<^verbatim>\<open>app\<close>,
  \<^verbatim>\<open>cyberdesk-instance\<close> and \<^verbatim>\<open>kubevirt.io/domain\<close> equal to the desktop name, and
  \<^verbatim>\<open>managed-by\<close>; the hostname is the desktop name and the run strategy is Always; every
  label under another key keeps its value, and no label key is lost.
\<close>

theorem finalization_patch:
  "cyberdesk_create isoformat spec n st retry now w = (Done, p, w')
   \<and> (\<not> already_provisioned st \<and> \<not> falsy (st ''cloneOperationName'')
      \<or> already_provisioned st \<and> st ''virtualMachineRef'' = Some n) \<longrightarrow>
   (\<exists>v v'. map_of (vms w) n = Some v \<and> map_of (vms w') n = Some v'
      \<and> vm_labels v' ''managed-by'' = Some MANAGED_BY
      \<and> vm_template_labels v' ''app'' = Some ''cyberdesk''
      \<and> vm_template_labels v' ''cyberdesk-instance'' = Some n
      \<and> vm_template_labels v' ''managed-by'' = Some MANAGED_BY
      \<and> vm_template_labels v' ''kubevirt.io/domain'' = Some n
      \<and> vm_hostname v' = Some n
      \<and> vm_runStrategy v' = Some ''Always''
      \<and> (\<forall>k. k \<noteq> ''managed-by'' \<longrightarrow> vm_labels v' k = vm_labels v k)
      \<and> (\<forall>k. k \<notin> set [''app'', ''cyberdesk-instance'', ''managed-by'', ''kubevirt.io/domain'']
             \<longrightarrow> vm_template_labels v' k = vm_template_labels v k)
      \<and> dom (vm_labels v) \<subseteq> dom (vm_labels v')
      \<and> dom (vm_template_labels v) \<subseteq> dom (vm_template_labels v'))"
proof (intro impI, elim conjE)
  assume c: "cyberdesk_create isoformat spec n st retry now w = (Done, p, w')"
    and path: "\<not> already_provisioned st \<and> \<not> falsy (st ''cloneOperationName'')
      \<or> already_provisioned st \<and> st ''virtualMachineRef'' = Some n"
  have "\<exists>wa u. vms wa = vms w \<and> ensure_vm_patched_and_running n wa = (Inr u, w')"
  proof (cases "already_provisioned st")
    case True
    with path have v: "st ''virtualMachineRef'' = Some n" by blast
    from c True v have "reconcile_bound isoformat (timeout_ms_of spec) n st now w = (Done, p, w')"
      by (simp add: cyberdesk_create_def)
    from bound_path_done [OF this] show ?thesis by blast
  next
    case False
    with path have nf: "\<not> falsy (st ''cloneOperationName'')" by blast
    from c cyberdesk_create_clone_check [OF False nf, of isoformat spec n retry now w]
    have "check_clone_status isoformat (timeout_ms_of spec) n (the (st ''cloneOperationName''))
        st retry now w = (Done, p, w')"
      by simp
    from clone_path_done [OF this] show ?thesis .
  qed
  then obtain wa u where wa: "vms wa = vms w"
    and e: "ensure_vm_patched_and_running n wa = (Inr u, w')"
    by blast
  from ensure_finalizes [OF e] wa obtain v where v: "map_of (vms w) n = Some v"
    and v': "map_of (vms w') n = Some (merge_patch (ensure_patch_body n) v)"
    by auto
  from v v' merge_ensure_patch [where n = n and v = v] show "\<exists>v v'. map_of (vms w) n = Some v \<and> map_of (vms w') n = Some v'
      \<and> vm_labels v' ''managed-by'' = Some MANAGED_BY
      \<and> vm_template_labels v' ''app'' = Some ''cyberdesk''
      \<and> vm_template_labels v' ''cyberdesk-instance'' = Some n
      \<and> vm_template_labels v' ''managed-by'' = Some MANAGED_BY
      \<and> vm_template_labels v' ''kubevirt.io/domain'' = Some n
      \<and> vm_hostname v' = Some n
      \<and> vm_runStrategy v' = Some ''Always''
      \<and> (\<forall>k. k \<noteq> ''managed-by'' \<longrightarrow> vm_labels v' k = vm_labels v k)
      \<and> (\<forall>k. k \<notin> set [''app'', ''cyberdesk-instance'', ''managed-by'', ''kubevirt.io/domain'']
             \<longrightarrow> vm_template_labels v' k = vm_template_labels v k)
      \<and> dom (vm_labels v) \<subseteq> dom (vm_labels v')
      \<and> dom (vm_template_labels v) \<subseteq> dom (vm_template_labels v')"
    by (intro exI [of _ v] exI [of _ "merge_patch (ensure_patch_body n) v"] conjI allI impI)
      assumption+
qed

theorem finalization_patch_witness:
  "cyberdesk_create isoformat_demo Map.empty ''desk-2'' cloning_status 3 0
        (cluster [(''desk-2'', restored_vm)]
           [''clone-for-desk-2'' \<mapsto> clone_in_phase ''desk-2'' ''Succeeded''] [])
      = (Done,
         Some (bound_status ''desk-2'' ''1970-01-01T00:00:00+00:00''
                ''1970-01-01T01:00:00+00:00'' ''Cloned''),
         cluster [(''desk-2'', merge_patch (ensure_patch_body ''desk-2'') restored_vm)]
           [''clone-for-desk-2'' \<mapsto> clone_in_phase ''desk-2'' ''Succeeded''] [])
   \<and> \<not> already_provisioned cloning_status \<and> \<not> falsy (cloning_status ''cloneOperationName'')
   \<and> vm_template_labels (merge_patch (ensure_patch_body ''desk-2'') restored_vm)
        ''cyberdesk-instance'' = Some ''desk-2''
   \<and> vm_hostname (merge_patch (ensure_patch_body ''desk-2'') restored_vm) = Some ''desk-2''
   \<and> vm_labels (merge_patch (ensure_patch_body ''desk-2'') restored_vm) ''managed-by''
        = Some MANAGED_BY
   \<and> vm_labels (merge_patch (ensure_patch_body ''desk-2'') restored_vm) ''kubevirt.io/os''
        = Some ''linux''
   \<and> vm_template_labels (merge_patch (ensure_patch_body ''desk-2'') restored_vm)
        ''kubevirt.io/size'' = Some ''small''"
proof -
  let ?w = "cluster [(''desk-2'', restored_vm)]
           [''clone-for-desk-2'' \<mapsto> clone_in_phase ''desk-2'' ''Succeeded''] []"
  let ?v' = "merge_patch (ensure_patch_body ''desk-2'') restored_vm"
  let ?w' = "cluster [(''desk-2'', ?v')]
           [''clone-for-desk-2'' \<mapsto> clone_in_phase ''desk-2'' ''Succeeded''] []"
  have np: "\<not> already_provisioned cloning_status"
    by (simp add: already_provisioned_def cloning_status_def falsy_def)
  have nf: "\<not> falsy (cloning_status ''cloneOperationName'')"
    by (simp add: cloning_status_def falsy_def)
  have m: "map_of (vms ?w) ''desk-2'' = Some restored_vm" "map_of (vms ?w') ''desk-2'' = Some ?v'"
    by (simp_all add: cluster_def)
  have old: "vm_labels restored_vm ''kubevirt.io/os'' = Some ''linux''"
    "vm_template_labels restored_vm ''kubevirt.io/size'' = Some ''small''"
    by (simp_all add: restored_vm_def)
  from finalization_patch [where isoformat = isoformat_demo and spec = Map.empty
      and n = "''desk-2''" and st = cloning_status and retry = 3 and now = 0 and w = ?w
      and w' = ?w'
      and p = "Some (bound_status ''desk-2'' ''1970-01-01T00:00:00+00:00''
                ''1970-01-01T01:00:00+00:00'' ''Cloned'')"]
    scenario_clone_success np nf
  obtain v v' where f: "map_of (vms ?w) ''desk-2'' = Some v" "map_of (vms ?w') ''desk-2'' = Some v'"
      "vm_labels v' ''managed-by'' = Some MANAGED_BY"
      "vm_template_labels v' ''cyberdesk-instance'' = Some ''desk-2''"
      "vm_hostname v' = Some ''desk-2''"
      "\<forall>k. k \<noteq> ''managed-by'' \<longrightarrow> vm_labels v' k = vm_labels v k"
      "\<forall>k. k \<notin> set [''app'', ''cyberdesk-instance'', ''managed-by'', ''kubevirt.io/domain'']
             \<longrightarrow> vm_template_labels v' k = vm_template_labels v k"
    by blast
  from f(1,2) m have eq: "v = restored_vm" "v' = ?v'" by simp_all
  from f(6) eq old(1) have l: "vm_labels ?v' ''kubevirt.io/os'' = Some ''linux''" by simp
  from f(7) eq old(2) have t: "vm_template_labels ?v' ''kubevirt.io/size'' = Some ''small''"
    by simp
  from scenario_clone_success np nf f(3,4,5) eq l t show ?thesis by simp
qed

text \<open>
  Where Claim C1 as stated fails. After a clone, the VM restored from the snapshot gets
  neither \<^verbatim>\<open>app\<close> nor \<^verbatim>\<open>cyberdesk-instance\<close> among its top-level labels. And the re-patch
  of the pool VM vm-a that is bound to the desktop desk-1 replaces the template label
  \<^verbatim>\<open>cyberdesk-instance\<close> desk-1 by vm-a, and sets the domain label and the hostname to
  vm-a.
\<close>

theorem finalization_counterexample:
  "cyberdesk_create isoformat_demo Map.empty ''desk-2'' cloning_status 3 0
        (cluster [(''desk-2'', restored_vm)]
           [''clone-for-desk-2'' \<mapsto> clone_in_phase ''desk-2'' ''Succeeded''] [])
      = (Done,
         Some (bound_status ''desk-2'' ''1970-01-01T00:00:00+00:00''
                ''1970-01-01T01:00:00+00:00'' ''Cloned''),
         cluster [(''desk-2'', merge_patch (ensure_patch_body ''desk-2'') restored_vm)]
           [''clone-for-desk-2'' \<mapsto> clone_in_phase ''desk-2'' ''Succeeded''] [])
   \<and> vm_labels (merge_patch (ensure_patch_body ''desk-2'') restored_vm) ''app'' = None
   \<and> vm_labels (merge_patch (ensure_patch_body ''desk-2'') restored_vm) ''cyberdesk-instance''
        = None
   \<and> cyberdesk_create isoformat_demo Map.empty ''desk-1'' pool_bound_status 0 7
        (cluster [(''vm-a'', assigned_vm)] Map.empty [])
      = (Done, Some ((splat pool_bound_status)(''cloneOperationName'' := None)),
         cluster [(''vm-a'', merge_patch (ensure_patch_body ''vm-a'') assigned_vm)] Map.empty [])
   \<and> vm_template_labels assigned_vm ''cyberdesk-instance'' = Some ''desk-1''
   \<and> vm_template_labels (merge_patch (ensure_patch_body ''vm-a'') assigned_vm)
        ''cyberdesk-instance'' = Some ''vm-a''
   \<and> vm_template_labels (merge_patch (ensure_patch_body ''vm-a'') assigned_vm)
        ''kubevirt.io/domain'' = Some ''vm-a''
   \<and> vm_hostname (merge_patch (ensure_patch_body ''vm-a'') assigned_vm) = Some ''vm-a''"
proof -
  have a: "vm_labels (merge_patch (ensure_patch_body ''desk-2'') restored_vm) ''app'' = None"
    "vm_labels (merge_patch (ensure_patch_body ''desk-2'') restored_vm) ''cyberdesk-instance''
        = None"
    by (simp_all add: merge_patch_def ensure_patch_body_def restored_vm_def)
  have b: "vm_template_labels assigned_vm ''cyberdesk-instance'' = Some ''desk-1''"
    by (simp add: assigned_vm_def)
  from scenario_clone_success scenario_repatch a b merge_ensure_patch(3,5,6) [where n = "''vm-a''" and v = assigned_vm]
  show ?thesis by simp
qed

section \<open>More runs of the handler in the scenarios\<close>

lemma scenario_pool_steps:
  "get_free_vm_from_pool (pool_world [(''vm-a'', warm_vm)] [])
     = (Inr (Some ''vm-a''), pool_world [(''vm-a'', claimed_vm)] [])"
  "api_get_vm ''vm-a'' (pool_world [(''vm-a'', claimed_vm)] [])
     = (Inr claimed_vm, pool_world [(''vm-a'', claimed_vm)] [])"
  "api_patch_vm ''vm-a'' (pool_patch_body ''desk-1'' claimed_vm)
       (pool_world [(''vm-a'', claimed_vm)] [])
     = (Inr (merge_patch (pool_patch_body ''desk-1'' claimed_vm) claimed_vm),
        pool_world [(''vm-a'', merge_patch (pool_patch_body ''desk-1'' claimed_vm) claimed_vm)] [])"
  "api_get_vmi ''vm-a''
       (pool_world [(''vm-a'', merge_patch (pool_patch_body ''desk-1'' claimed_vm) claimed_vm)] [])
     = (Inr running_vmi,
        pool_world [(''vm-a'', merge_patch (pool_patch_body ''desk-1'' claimed_vm) claimed_vm)] [])"
  "notify_gateway ''desk-1''
       (pool_world [(''vm-a'', merge_patch (pool_patch_body ''desk-1'' claimed_vm) claimed_vm)] [])
     = (None,
        pool_world [(''vm-a'', merge_patch (pool_patch_body ''desk-1'' claimed_vm) claimed_vm)]
          [''http://gateway/cyberdesk/desk-1/ready''])"
proof -
  have l: "api_list_vms (pool_world [(''vm-a'', warm_vm)] [])
      = (Inr [(''vm-a'', warm_vm)], pool_world [(''vm-a'', warm_vm)] [])"
    by (simp add: api_list_vms_def api_call_def pool_world_def warm_vm_def)
  have p: "api_patch_vm ''vm-a'' (claim_patch_body (vm_labels warm_vm))
       (pool_world [(''vm-a'', warm_vm)] [])
      = (Inr claimed_vm, pool_world [(''vm-a'', claimed_vm)] [])"
    by (simp add: api_patch_vm_def api_call_def pool_world_def claimed_vm_def)
  have c: "vm_labels warm_vm ''pool.kubevirt.io/in-use'' \<noteq> Some ''true''"
    "vm_printableStatus warm_vm = Some ''Running''"
    by (simp_all add: warm_vm_def)
  from p c have "claim_loop [(''vm-a'', warm_vm)] (pool_world [(''vm-a'', warm_vm)] [])
      = (Some ''vm-a'', pool_world [(''vm-a'', claimed_vm)] [])"
    by simp
  with l show "get_free_vm_from_pool (pool_world [(''vm-a'', warm_vm)] [])
     = (Inr (Some ''vm-a''), pool_world [(''vm-a'', claimed_vm)] [])"
    by (simp add: get_free_vm_from_pool_def)
  show "api_get_vm ''vm-a'' (pool_world [(''vm-a'', claimed_vm)] [])
     = (Inr claimed_vm, pool_world [(''vm-a'', claimed_vm)] [])"
    by (simp add: api_get_vm_def api_call_def pool_world_def)
  show "api_patch_vm ''vm-a'' (pool_patch_body ''desk-1'' claimed_vm)
       (pool_world [(''vm-a'', claimed_vm)] [])
     = (Inr (merge_patch (pool_patch_body ''desk-1'' claimed_vm) claimed_vm),
        pool_world [(''vm-a'', merge_patch (pool_patch_body ''desk-1'' claimed_vm) claimed_vm)] [])"
    by (simp add: api_patch_vm_def api_call_def pool_world_def)
  show "api_get_vmi ''vm-a''
       (pool_world [(''vm-a'', merge_patch (pool_patch_body ''desk-1'' claimed_vm) claimed_vm)] [])
     = (Inr running_vmi,
        pool_world [(''vm-a'', merge_patch (pool_patch_body ''desk-1'' claimed_vm) claimed_vm)] [])"
    by (simp add: api_get_vmi_def api_call_def pool_world_def)
  show "notify_gateway ''desk-1''
       (pool_world [(''vm-a'', merge_patch (pool_patch_body ''desk-1'' claimed_vm) claimed_vm)] [])
     = (None,
        pool_world [(''vm-a'', merge_patch (pool_patch_body ''desk-1'' claimed_vm) claimed_vm)]
          [''http://gateway/cyberdesk/desk-1/ready''])"
    by (simp add: notify_gateway_def falsy_def pool_world_def)
qed

lemma scenario_facts:
  "\<not> already_provisioned Map.empty" "falsy ((Map.empty :: status) ''cloneOperationName'')"
  "\<not> already_provisioned cloning_status" "\<not> falsy (cloning_status ''cloneOperationName'')"
  "the (cloning_status ''cloneOperationName'') = ''clone-for-desk-2''"
  "already_provisioned unfinished_status" "unfinished_status ''startTime'' = None"
  "the (unfinished_status ''virtualMachineRef'') = ''desk-2''"
  "\<not> falsy (case vmi_interfaces running_vmi of [] \<Rightarrow> None | i # _ \<Rightarrow> i)"
  "vmi_phase running_vmi = Some ''Running''"
  "isoformat_demo 0 = ''1970-01-01T00:00:00+00:00''"
  "isoformat_demo (0 + 3600000000) = ''1970-01-01T01:00:00+00:00''"
  "DATETIME_MIN \<le> 0 + 3600000000" "0 + 3600000000 \<le> DATETIME_MAX"
  by (simp_all add: already_provisioned_def falsy_def cloning_status_def unfinished_status_def
      running_vmi_def isoformat_demo_def DATETIME_MIN_def DATETIME_MAX_def)

lemma scenario_clone_steps:
  "api_get_clone ''clone-for-desk-2''
     (cluster [(''desk-2'', restored_vm)]
        [''clone-for-desk-2'' \<mapsto> clone_in_phase ''desk-2'' ''Succeeded''] fs)
   = (if fs = [] \<or> hd fs = None
      then (Inr (clone_in_phase ''desk-2'' ''Succeeded''),
            cluster [(''desk-2'', restored_vm)]
              [''clone-for-desk-2'' \<mapsto> clone_in_phase ''desk-2'' ''Succeeded''] (tl fs))
      else (Inl (the (hd fs)),
            cluster [(''desk-2'', restored_vm)]
              [''clone-for-desk-2'' \<mapsto> clone_in_phase ''desk-2'' ''Succeeded''] (tl fs)))"
  "clone_phase (clone_in_phase ''desk-2'' ''Succeeded'') = Some ''Succeeded''"
  "ensure_vm_patched_and_running ''desk-2'' (cluster [(''desk-2'', restored_vm)] cs [])
   = (Inr (), cluster [(''desk-2'', merge_patch (ensure_patch_body ''desk-2'') restored_vm)] cs [])"
  "ensure_vm_patched_and_running ''desk-2'' (cluster [(''desk-2'', restored_vm)] cs [Some 500])
   = (Inl (TemporaryError (Some 10)), cluster [(''desk-2'', restored_vm)] cs [])"
  by (auto simp: api_get_clone_def api_call_def cluster_def clone_in_phase_def
      ensure_vm_patched_and_running_def api_patch_vm_def split: list.splits option.splits)

lemma scenario_clone_runs:
  "cyberdesk_create isoformat_demo [''timeoutMs'' \<mapsto> 3600000] ''desk-2'' cloning_status 3 0
     (cluster [(''desk-2'', restored_vm)]
        [''clone-for-desk-2'' \<mapsto> clone_in_phase ''desk-2'' ''Succeeded''] [None, Some 500])
   = (TemporaryError (Some 10), None,
      cluster [(''desk-2'', restored_vm)]
        [''clone-for-desk-2'' \<mapsto> clone_in_phase ''desk-2'' ''Succeeded''] [])"
  "cyberdesk_create isoformat_demo [''timeoutMs'' \<mapsto> 1000000000000000] ''desk-2''
     cloning_status 3 0
     (cluster [(''desk-2'', restored_vm)]
        [''clone-for-desk-2'' \<mapsto> clone_in_phase ''desk-2'' ''Succeeded''] [])
   = (TemporaryError (Some 30), None,
      cluster [(''desk-2'', merge_patch (ensure_patch_body ''desk-2'') restored_vm)]
        [''clone-for-desk-2'' \<mapsto> clone_in_phase ''desk-2'' ''Succeeded''] [])"
proof -
  let ?cs = "[''clone-for-desk-2'' \<mapsto> clone_in_phase ''desk-2'' ''Succeeded'']"
  have t: "datetime_add_ms 0 (timeout_ms_of [''timeoutMs'' \<mapsto> 1000000000000000]) = None"
    by (simp add: datetime_add_ms_def timeout_ms_of_def dict_get_def DATETIME_MIN_def
        DATETIME_MAX_def)
  show "cyberdesk_create isoformat_demo [''timeoutMs'' \<mapsto> 3600000] ''desk-2'' cloning_status 3 0
     (cluster [(''desk-2'', restored_vm)] ?cs [None, Some 500])
   = (TemporaryError (Some 10), None, cluster [(''desk-2'', restored_vm)] ?cs [])"
    unfolding cyberdesk_create_clone_check [OF scenario_facts(3,4)] scenario_facts(5)
    by (simp add: check_clone_status_def scenario_clone_steps)
  show "cyberdesk_create isoformat_demo [''timeoutMs'' \<mapsto> 1000000000000000] ''desk-2''
     cloning_status 3 0 (cluster [(''desk-2'', restored_vm)] ?cs [])
   = (TemporaryError (Some 30), None,
      cluster [(''desk-2'', merge_patch (ensure_patch_body ''desk-2'') restored_vm)] ?cs [])"
    unfolding cyberdesk_create_clone_check [OF scenario_facts(3,4)] scenario_facts(5)
    by (simp add: check_clone_status_def scenario_clone_steps t)
qed

section \<open>A clone that succeeded\<close>

text \<open>
  Claim C5, as the code has it. The clone is found in phase Succeeded. The handler patches
  the VM that has the name of the desktop. When that patch succeeds and now plus the
  timeout is a datetime, the handler returns with the one status patch that sets the VM
  reference to the desktop name, the phase Cloned, the start time now and the expiry time
  now plus the timeout, and removes the clone operation name; the VM then has the
  top-level label \<^verbatim>\<open>managed-by\<close>, the template labels \<^verbatim>\<open>app\<close>, \<^verbatim>\<open>cyberdesk-instance\<close> and
  \<^verbatim>\<open>kubevirt.io/domain\<close> equal to the desktop name and \<^verbatim>\<open>managed-by\<close>, the desktop name as
  hostname and the run strategy Always, and every label under another key as before. When
  the patch fails, the handler raises a temporary error with delay 10, writes no status
  and changes neither VMs nor clones.
\<close>

theorem clone_succeeded:
  "\<not> already_provisioned st \<and> \<not> falsy (st ''cloneOperationName'')
   \<and> api_get_clone (the (st ''cloneOperationName'')) w = (Inr cl, wa)
   \<and> clone_phase cl = Some ''Succeeded'' \<longrightarrow>
     (ensure_vm_patched_and_running n wa = (Inr u, wb)
      \<and> DATETIME_MIN \<le> now + 1000 * timeout_ms_of spec
      \<and> now + 1000 * timeout_ms_of spec \<le> DATETIME_MAX \<longrightarrow>
        cyberdesk_create isoformat spec n st retry now w
          = (Done,
             Some (bound_status n (isoformat now) (isoformat (now + 1000 * timeout_ms_of spec))
                    ''Cloned''),
             wb)
        \<and> (\<exists>v v'. map_of (vms w) n = Some v \<and> map_of (vms wb) n = Some v'
              \<and> vm_labels v' ''managed-by'' = Some MANAGED_BY
              \<and> vm_template_labels v' ''app'' = Some ''cyberdesk''
              \<and> vm_template_labels v' ''cyberdesk-instance'' = Some n
              \<and> vm_template_labels v' ''managed-by'' = Some MANAGED_BY
              \<and> vm_template_labels v' ''kubevirt.io/domain'' = Some n
              \<and> vm_hostname v' = Some n
              \<and> vm_runStrategy v' = Some ''Always''
              \<and> (\<forall>k. k \<noteq> ''managed-by'' \<longrightarrow> vm_labels v' k = vm_labels v k)
              \<and> (\<forall>k. k \<notin> set [''app'', ''cyberdesk-instance'', ''managed-by'',
                                ''kubevirt.io/domain'']
                     \<longrightarrow> vm_template_labels v' k = vm_template_labels v k))
        \<and> clones wb = clones w
        \<and> apply_status_patch (Some (bound_status n (isoformat now)
              (isoformat (now + 1000 * timeout_ms_of spec)) ''Cloned'')) st
            = st(''virtualMachineRef'' \<mapsto> n, ''startTime'' \<mapsto> isoformat now,
                 ''expiryTime'' \<mapsto> isoformat (now + 1000 * timeout_ms_of spec),
                 ''lastPhase'' \<mapsto> ''Cloned'', ''cloneOperationName'' := None))
     \<and> (ensure_vm_patched_and_running n wa = (Inl e, wb) \<longrightarrow>
        cyberdesk_create isoformat spec n st retry now w = (TemporaryError (Some 10), None, wb)
        \<and> vms wb = vms w \<and> clones wb = clones w)"
proof -
  let ?c = "the (st ''cloneOperationName'')"
  let ?t = "now + 1000 * timeout_ms_of spec"
  have ok: "cyberdesk_create isoformat spec n st retry now w
          = (Done, Some (bound_status n (isoformat now) (isoformat ?t) ''Cloned''), wb)
        \<and> (\<exists>v v'. map_of (vms w) n = Some v \<and> map_of (vms wb) n = Some v'
              \<and> vm_labels v' ''managed-by'' = Some MANAGED_BY
              \<and> vm_template_labels v' ''app'' = Some ''cyberdesk''
              \<and> vm_template_labels v' ''cyberdesk-instance'' = Some n
              \<and> vm_template_labels v' ''managed-by'' = Some MANAGED_BY
              \<and> vm_template_labels v' ''kubevirt.io/domain'' = Some n
              \<and> vm_hostname v' = Some n
              \<and> vm_runStrategy v' = Some ''Always''
              \<and> (\<forall>k. k \<noteq> ''managed-by'' \<longrightarrow> vm_labels v' k = vm_labels v k)
              \<and> (\<forall>k. k \<notin> set [''app'', ''cyberdesk-instance'', ''managed-by'',
                                ''kubevirt.io/domain'']
                     \<longrightarrow> vm_template_labels v' k = vm_template_labels v k))
        \<and> clones wb = clones w"
    if "\<not> already_provisioned st" "\<not> falsy (st ''cloneOperationName'')"
      "api_get_clone ?c w = (Inr cl, wa)" "clone_phase cl = Some ''Succeeded''"
      "ensure_vm_patched_and_running n wa = (Inr u, wb)"
      "DATETIME_MIN \<le> ?t" "?t \<le> DATETIME_MAX"
  proof -
    from that(3-7) have "check_clone_status isoformat (timeout_ms_of spec) n ?c st retry now w
          = (Done, Some (bound_status n (isoformat now) (isoformat ?t) ''Cloned''), wb)"
      by (simp add: check_clone_status_def datetime_add_ms_def)
    with cyberdesk_create_clone_check [OF that(1,2), of isoformat spec n retry now w]
    have run: "cyberdesk_create isoformat spec n st retry now w
          = (Done, Some (bound_status n (isoformat now) (isoformat ?t) ''Cloned''), wb)"
      by simp
    from api_get_clone_cases [OF that(3)] ensure_cases [OF that(5)]
    have cl: "clones wb = clones w" and vw: "vms wa = vms w" by simp_all
    from ensure_finalizes [OF that(5)] vw obtain v where v: "map_of (vms w) n = Some v"
      and v': "map_of (vms wb) n = Some (merge_patch (ensure_patch_body n) v)"
      by auto
    from v v' merge_ensure_patch [where n = n and v = v]
    have "\<exists>v v'. map_of (vms w) n = Some v \<and> map_of (vms wb) n = Some v'
              \<and> vm_labels v' ''managed-by'' = Some MANAGED_BY
              \<and> vm_template_labels v' ''app'' = Some ''cyberdesk''
              \<and> vm_template_labels v' ''cyberdesk-instance'' = Some n
              \<and> vm_template_labels v' ''managed-by'' = Some MANAGED_BY
              \<and> vm_template_labels v' ''kubevirt.io/domain'' = Some n
              \<and> vm_hostname v' = Some n
              \<and> vm_runStrategy v' = Some ''Always''
              \<and> (\<forall>k. k \<noteq> ''managed-by'' \<longrightarrow> vm_labels v' k = vm_labels v k)
              \<and> (\<forall>k. k \<notin> set [''app'', ''cyberdesk-instance'', ''managed-by'',
                                ''kubevirt.io/domain'']
                     \<longrightarrow> vm_template_labels v' k = vm_template_labels v k)"
      by (intro exI [of _ v] exI [of _ "merge_patch (ensure_patch_body n) v"] conjI allI impI)
        assumption+
    with run cl show ?thesis by simp
  qed
  have st: "apply_status_patch (Some (bound_status n (isoformat now) (isoformat ?t) ''Cloned'')) st
            = st(''virtualMachineRef'' \<mapsto> n, ''startTime'' \<mapsto> isoformat now,
                 ''expiryTime'' \<mapsto> isoformat ?t,
                 ''lastPhase'' \<mapsto> ''Cloned'', ''cloneOperationName'' := None)"
    by (rule ext) (simp add: apply_status_patch_def bound_status_def)
  have failed: "cyberdesk_create isoformat spec n st retry now w
       = (TemporaryError (Some 10), None, wb) \<and> vms wb = vms w \<and> clones wb = clones w"
    if "\<not> already_provisioned st" "\<not> falsy (st ''cloneOperationName'')"
      "api_get_clone ?c w = (Inr cl, wa)" "clone_phase cl = Some ''Succeeded''"
      "ensure_vm_patched_and_running n wa = (Inl e, wb)"
    using that(3-5) ensure_cases [OF that(5)] api_get_clone_cases [OF that(3)]
      cyberdesk_create_clone_check [OF that(1,2), of isoformat spec n retry now w]
    by (simp add: check_clone_status_def)
  from ok st failed show ?thesis by blast
qed

theorem clone_succeeded_witness:
  "\<not> already_provisioned cloning_status \<and> \<not> falsy (cloning_status ''cloneOperationName'')
   \<and> api_get_clone (the (cloning_status ''cloneOperationName''))
        (cluster [(''desk-2'', restored_vm)]
           [''clone-for-desk-2'' \<mapsto> clone_in_phase ''desk-2'' ''Succeeded''] [])
       = (Inr (clone_in_phase ''desk-2'' ''Succeeded''),
          cluster [(''desk-2'', restored_vm)]
           [''clone-for-desk-2'' \<mapsto> clone_in_phase ''desk-2'' ''Succeeded''] [])
   \<and> clone_phase (clone_in_phase ''desk-2'' ''Succeeded'') = Some ''Succeeded''
   \<and> ensure_vm_patched_and_running ''desk-2''
        (cluster [(''desk-2'', restored_vm)]
           [''clone-for-desk-2'' \<mapsto> clone_in_phase ''desk-2'' ''Succeeded''] [])
       = (Inr (),
          cluster [(''desk-2'', merge_patch (ensure_patch_body ''desk-2'') restored_vm)]
           [''clone-for-desk-2'' \<mapsto> clone_in_phase ''desk-2'' ''Succeeded''] [])
   \<and> DATETIME_MIN \<le> 0 + 1000 * timeout_ms_of [''timeoutMs'' \<mapsto> 3600000]
   \<and> 0 + 1000 * timeout_ms_of [''timeoutMs'' \<mapsto> 3600000] \<le> DATETIME_MAX
   \<and> cyberdesk_create isoformat_demo [''timeoutMs'' \<mapsto> 3600000] ''desk-2'' cloning_status 3 0
        (cluster [(''desk-2'', restored_vm)]
           [''clone-for-desk-2'' \<mapsto> clone_in_phase ''desk-2'' ''Succeeded''] [])
       = (Done,
          Some (bound_status ''desk-2'' ''1970-01-01T00:00:00+00:00''
                 ''1970-01-01T01:00:00+00:00'' ''Cloned''),
          cluster [(''desk-2'', merge_patch (ensure_patch_body ''desk-2'') restored_vm)]
           [''clone-for-desk-2'' \<mapsto> clone_in_phase ''desk-2'' ''Succeeded''] [])
   \<and> api_get_clone (the (cloning_status ''cloneOperationName''))
        (cluster [(''desk-2'', restored_vm)]
           [''clone-for-desk-2'' \<mapsto> clone_in_phase ''desk-2'' ''Succeeded''] [None, Some 500])
       = (Inr (clone_in_phase ''desk-2'' ''Succeeded''),
          cluster [(''desk-2'', restored_vm)]
           [''clone-for-desk-2'' \<mapsto> clone_in_phase ''desk-2'' ''Succeeded''] [Some 500])
   \<and> ensure_vm_patched_and_running ''desk-2''
        (cluster [(''desk-2'', restored_vm)]
           [''clone-for-desk-2'' \<mapsto> clone_in_phase ''desk-2'' ''Succeeded''] [Some 500])
       = (Inl (TemporaryError (Some 10)),
          cluster [(''desk-2'', restored_vm)]
           [''clone-for-desk-2'' \<mapsto> clone_in_phase ''desk-2'' ''Succeeded''] [])
   \<and> cyberdesk_create isoformat_demo [''timeoutMs'' \<mapsto> 3600000] ''desk-2'' cloning_status 3 0
        (cluster [(''desk-2'', restored_vm)]
           [''clone-for-desk-2'' \<mapsto> clone_in_phase ''desk-2'' ''Succeeded''] [None, Some 500])
       = (TemporaryError (Some 10), None,
          cluster [(''desk-2'', restored_vm)]
           [''clone-for-desk-2'' \<mapsto> clone_in_phase ''desk-2'' ''Succeeded''] [])"
proof -
  let ?cl = "clone_in_phase ''desk-2'' ''Succeeded''"
  let ?cs = "[''clone-for-desk-2'' \<mapsto> ?cl]"
  let ?w = "cluster [(''desk-2'', restored_vm)] ?cs"
  let ?wb = "cluster [(''desk-2'', merge_patch (ensure_patch_body ''desk-2'') restored_vm)] ?cs []"
  let ?spec = "[''timeoutMs'' \<mapsto> 3600000::int]"
  note np = scenario_facts(3) and nf = scenario_facts(4)
  have g: "api_get_clone (the (cloning_status ''cloneOperationName'')) (?w []) = (Inr ?cl, ?w [])"
    "api_get_clone (the (cloning_status ''cloneOperationName'')) (?w [None, Some 500])
       = (Inr ?cl, ?w [Some 500])"
    by (simp_all add: scenario_facts(5) scenario_clone_steps(1))
  note ph = scenario_clone_steps(2)
  note e = scenario_clone_steps(3) [of ?cs] scenario_clone_steps(4) [of ?cs]
  have t: "DATETIME_MIN \<le> 0 + 1000 * timeout_ms_of ?spec"
    "0 + 1000 * timeout_ms_of ?spec \<le> DATETIME_MAX"
    by (simp_all add: timeout_ms_of_def dict_get_def DATETIME_MIN_def DATETIME_MAX_def)
  have i: "isoformat_demo 0 = ''1970-01-01T00:00:00+00:00''"
    "isoformat_demo (0 + 1000 * timeout_ms_of ?spec) = ''1970-01-01T01:00:00+00:00''"
    by (simp_all add: isoformat_demo_def timeout_ms_of_def dict_get_def)
  from clone_succeeded [where st = cloning_status and w = "?w []" and cl = ?cl and wa = "?w []"
      and n = "''desk-2''" and u = "()" and wb = ?wb and now = 0 and spec = ?spec
      and isoformat = isoformat_demo and retry = 3] np nf g(1) ph e(1) t
  have r1: "cyberdesk_create isoformat_demo ?spec ''desk-2'' cloning_status 3 0 (?w [])
       = (Done,
          Some (bound_status ''desk-2'' (isoformat_demo 0)
                 (isoformat_demo (0 + 1000 * timeout_ms_of ?spec)) ''Cloned''), ?wb)"
    by blast
  from clone_succeeded [where st = cloning_status and w = "?w [None, Some 500]" and cl = ?cl
      and wa = "?w [Some 500]" and n = "''desk-2''" and e = "TemporaryError (Some 10)"
      and wb = "?w []" and now = 0 and spec = ?spec
      and isoformat = isoformat_demo and retry = 3] np nf g(2) ph e(2)
  have r2: "cyberdesk_create isoformat_demo ?spec ''desk-2'' cloning_status 3 0
       (?w [None, Some 500]) = (TemporaryError (Some 10), None, ?w [])"
    by blast
  from r1 i have r1': "cyberdesk_create isoformat_demo ?spec ''desk-2'' cloning_status 3 0 (?w [])
       = (Done,
          Some (bound_status ''desk-2'' ''1970-01-01T00:00:00+00:00''
                 ''1970-01-01T01:00:00+00:00'' ''Cloned''), ?wb)"
    by simp
  from np nf g ph e t r1' r2 show ?thesis by blast
qed

text \<open>
  Where Claim C5 as stated fails, with the clone in phase Succeeded each time. When the
  patch of the VM fails, no status is written. When now plus the timeout is beyond the
  year 9999, the VM is patched and no status is written. And when the handler returns,
  the VM has neither \<^verbatim>\<open>app\<close> nor \<^verbatim>\<open>cyberdesk-instance\<close> among its top-level labels.
\<close>

theorem clone_succeeded_counterexample:
  "\<not> already_provisioned cloning_status \<and> \<not> falsy (cloning_status ''cloneOperationName'')
   \<and> clone_phase (clone_in_phase ''desk-2'' ''Succeeded'') = Some ''Succeeded''
   \<and> cyberdesk_create isoformat_demo [''timeoutMs'' \<mapsto> 3600000] ''desk-2'' cloning_status 3 0
        (cluster [(''desk-2'', restored_vm)]
           [''clone-for-desk-2'' \<mapsto> clone_in_phase ''desk-2'' ''Succeeded''] [None, Some 500])
       = (TemporaryError (Some 10), None,
          cluster [(''desk-2'', restored_vm)]
           [''clone-for-desk-2'' \<mapsto> clone_in_phase ''desk-2'' ''Succeeded''] [])
   \<and> cyberdesk_create isoformat_demo [''timeoutMs'' \<mapsto> 1000000000000000] ''desk-2''
        cloning_status 3 0
        (cluster [(''desk-2'', restored_vm)]
           [''clone-for-desk-2'' \<mapsto> clone_in_phase ''desk-2'' ''Succeeded''] [])
       = (TemporaryError (Some 30), None,
          cluster [(''desk-2'', merge_patch (ensure_patch_body ''desk-2'') restored_vm)]
           [''clone-for-desk-2'' \<mapsto> clone_in_phase ''desk-2'' ''Succeeded''] [])
   \<and> cyberdesk_create isoformat_demo Map.empty ''desk-2'' cloning_status 3 0
        (cluster [(''desk-2'', restored_vm)]
           [''clone-for-desk-2'' \<mapsto> clone_in_phase ''desk-2'' ''Succeeded''] [])
       = (Done,
          Some (bound_status ''desk-2'' ''1970-01-01T00:00:00+00:00''
                 ''1970-01-01T01:00:00+00:00'' ''Cloned''),
          cluster [(''desk-2'', merge_patch (ensure_patch_body ''desk-2'') restored_vm)]
           [''clone-for-desk-2'' \<mapsto> clone_in_phase ''desk-2'' ''Succeeded''] [])
   \<and> vm_labels (merge_patch (ensure_patch_body ''desk-2'') restored_vm) ''app'' = None
   \<and> vm_labels (merge_patch (ensure_patch_body ''desk-2'') restored_vm) ''cyberdesk-instance''
        = None"
proof -
  have a: "vm_labels (merge_patch (ensure_patch_body ''desk-2'') restored_vm) ''app'' = None"
    "vm_labels (merge_patch (ensure_patch_body ''desk-2'') restored_vm) ''cyberdesk-instance''
        = None"
    by (simp_all add: merge_patch_def ensure_patch_body_def restored_vm_def)
  from scenario_facts(3,4) scenario_clone_steps(2) scenario_clone_runs scenario_clone_success a
  show ?thesis by blast
qed

section \<open>The default timeout\<close>

text \<open>
  Claim C10. When the spec has no \<^verbatim>\<open>timeoutMs\<close>, the timeout is 3,600,000 milliseconds and
  the handler does what it does for a spec that gives this value. Whenever it returns
  after binding a VM, or for a bound desktop without times, it has written a status patch
  with the start time now and the expiry time one hour later. And it does return so, while
  now plus one hour is a datetime, on each binding path: from the pool, when the claimed
  VM is read and patched, its VMI runs with an address and the POST to the gateway does
  not raise; from a clone in phase Succeeded, when the VM is patched; and for a bound
  desktop without times, when the VM is patched.
\<close>

theorem default_timeout:
  "spec ''timeoutMs'' = None \<longrightarrow>
     timeout_ms_of spec = 3600000
     \<and> cyberdesk_create isoformat spec n st retry now w
         = cyberdesk_create isoformat (spec(''timeoutMs'' \<mapsto> 3600000)) n st retry now w
     \<and> (cyberdesk_create isoformat spec n st retry now w = (Done, p, w')
        \<and> (\<not> already_provisioned st \<or> st ''startTime'' = None \<or> st ''expiryTime'' = None) \<longrightarrow>
          (\<exists>body. p = Some body
             \<and> body ''startTime'' = Some (Some (isoformat now))
             \<and> body ''expiryTime'' = Some (Some (isoformat (now + 3600000000)))))
     \<and> (DATETIME_MIN \<le> now + 3600000000 \<and> now + 3600000000 \<le> DATETIME_MAX \<longrightarrow>
          (\<not> already_provisioned st \<and> falsy (st ''cloneOperationName'')
           \<and> get_free_vm_from_pool w = (Inr (Some v), wa) \<and> \<not> falsy (Some v)
           \<and> api_get_vm v wa = (Inr current_vm, wb)
           \<and> api_patch_vm v (pool_patch_body n current_vm) wb = (Inr patched, wc)
           \<and> api_get_vmi v wc = (Inr vmi_obj, wd)
           \<and> \<not> falsy (case vmi_interfaces vmi_obj of [] \<Rightarrow> None | i # _ \<Rightarrow> i)
           \<and> vmi_phase vmi_obj = Some ''Running''
           \<and> notify_gateway n wd = (None, we) \<longrightarrow>
             cyberdesk_create isoformat spec n st retry now w
               = (Done,
                  Some (bound_status v (isoformat now) (isoformat (now + 3600000000))
                         ''AssignedFromPool''),
                  we))
          \<and> (\<not> already_provisioned st \<and> \<not> falsy (st ''cloneOperationName'')
             \<and> api_get_clone (the (st ''cloneOperationName'')) w = (Inr cl, wa)
             \<and> clone_phase cl = Some ''Succeeded''
             \<and> ensure_vm_patched_and_running n wa = (Inr u, wb) \<longrightarrow>
               cyberdesk_create isoformat spec n st retry now w
                 = (Done,
                    Some (bound_status n (isoformat now) (isoformat (now + 3600000000))
                           ''Cloned''),
                    wb))
          \<and> (already_provisioned st
             \<and> (st ''startTime'' = None \<or> st ''expiryTime'' = None)
             \<and> ensure_vm_patched_and_running (the (st ''virtualMachineRef'')) w = (Inr u, wa) \<longrightarrow>
               cyberdesk_create isoformat spec n st retry now w
                 = (Done,
                    Some ((splat st ++ [''startTime'' \<mapsto> Some (isoformat now),
                                        ''expiryTime'' \<mapsto> Some (isoformat (now + 3600000000))])
                          (''cloneOperationName'' := None)),
                    wa)))"
proof (intro impI)
  assume omitted: "spec ''timeoutMs'' = None"
  let ?e = "now + 3600000000"
  have t: "timeout_ms_of spec = 3600000"
    using omitted by (simp add: timeout_ms_of_def dict_get_def)
  have t': "timeout_ms_of (spec(''timeoutMs'' \<mapsto> 3600000)) = 3600000"
    by (simp add: timeout_ms_of_def dict_get_def)
  have same: "cyberdesk_create isoformat spec n st retry now w
         = cyberdesk_create isoformat (spec(''timeoutMs'' \<mapsto> 3600000)) n st retry now w"
    unfolding cyberdesk_create_def t t' ..
  have e: "e = ?e" if "datetime_add_ms now 3600000 = Some e" for e
    using that by (simp add: datetime_add_ms_def Let_def split: if_splits)
  have add: "datetime_add_ms now 3600000 = Some ?e"
    if "DATETIME_MIN \<le> ?e" "?e \<le> DATETIME_MAX"
    using that by (simp add: datetime_add_ms_def)
  have written: "\<exists>body. p = Some body
             \<and> body ''startTime'' = Some (Some (isoformat now))
             \<and> body ''expiryTime'' = Some (Some (isoformat ?e))"
    if "cyberdesk_create isoformat spec n st retry now w = (Done, p, w')"
      "\<not> already_provisioned st \<or> st ''startTime'' = None \<or> st ''expiryTime'' = None"
    using cyberdesk_create_patch [OF that(1)] that(2) t e
    by (elim disjE conjE exE) (auto simp: bound_status_def)
  have pool: "cyberdesk_create isoformat spec n st retry now w
               = (Done, Some (bound_status v (isoformat now) (isoformat ?e) ''AssignedFromPool''),
                  we)"
    if "DATETIME_MIN \<le> ?e" "?e \<le> DATETIME_MAX"
      "\<not> already_provisioned st" "falsy (st ''cloneOperationName'')"
      "get_free_vm_from_pool w = (Inr (Some v), wa)" "\<not> falsy (Some v)"
      "api_get_vm v wa = (Inr current_vm, wb)"
      "api_patch_vm v (pool_patch_body n current_vm) wb = (Inr patched, wc)"
      "api_get_vmi v wc = (Inr vmi_obj, wd)"
      "\<not> falsy (case vmi_interfaces vmi_obj of [] \<Rightarrow> None | i # _ \<Rightarrow> i)"
      "vmi_phase vmi_obj = Some ''Running''"
      "notify_gateway n wd = (None, we)"
  proof -
    from that(7-12) add [OF that(1,2)]
    have "assign_from_pool isoformat 3600000 n v now wa
        = (Done, Some (bound_status v (isoformat now) (isoformat ?e) ''AssignedFromPool''), we)"
      by (simp add: assign_from_pool_def)
    with that(3-6) t show ?thesis
      by (simp add: cyberdesk_create_def)
  qed
  have clone: "cyberdesk_create isoformat spec n st retry now w
                 = (Done, Some (bound_status n (isoformat now) (isoformat ?e) ''Cloned''), wb)"
    if "DATETIME_MIN \<le> ?e" "?e \<le> DATETIME_MAX"
      "\<not> already_provisioned st" "\<not> falsy (st ''cloneOperationName'')"
      "api_get_clone (the (st ''cloneOperationName'')) w = (Inr cl, wa)"
      "clone_phase cl = Some ''Succeeded''"
      "ensure_vm_patched_and_running n wa = (Inr u, wb)"
    using that(5-7) add [OF that(1,2)] t
      cyberdesk_create_clone_check [OF that(3,4), of isoformat spec n retry now w]
    by (simp add: check_clone_status_def)
  have bound: "cyberdesk_create isoformat spec n st retry now w
                 = (Done,
                    Some ((splat st ++ [''startTime'' \<mapsto> Some (isoformat now),
                                        ''expiryTime'' \<mapsto> Some (isoformat ?e)])
                          (''cloneOperationName'' := None)),
                    wa)"
    if "DATETIME_MIN \<le> ?e" "?e \<le> DATETIME_MAX"
      "already_provisioned st" "st ''startTime'' = None \<or> st ''expiryTime'' = None"
      "ensure_vm_patched_and_running (the (st ''virtualMachineRef'')) w = (Inr u, wa)"
  proof -
    from that(4,5) add [OF that(1,2)]
    have "reconcile_bound isoformat 3600000 (the (st ''virtualMachineRef'')) st now w
        = (Done,
           Some ((splat st ++ [''startTime'' \<mapsto> Some (isoformat now),
                               ''expiryTime'' \<mapsto> Some (isoformat ?e)])
                 (''cloneOperationName'' := None)),
           wa)"
      by (auto simp: reconcile_bound_def)
    with that(3) t show ?thesis by (simp add: cyberdesk_create_def)
  qed
  from t same written pool clone bound
  show "timeout_ms_of spec = 3600000
     \<and> cyberdesk_create isoformat spec n st retry now w
         = cyberdesk_create isoformat (spec(''timeoutMs'' \<mapsto> 3600000)) n st retry now w
     \<and> (cyberdesk_create isoformat spec n st retry now w = (Done, p, w')
        \<and> (\<not> already_provisioned st \<or> st ''startTime'' = None \<or> st ''expiryTime'' = None) \<longrightarrow>
          (\<exists>body. p = Some body
             \<and> body ''startTime'' = Some (Some (isoformat now))
             \<and> body ''expiryTime'' = Some (Some (isoformat (now + 3600000000)))))
     \<and> (DATETIME_MIN \<le> now + 3600000000 \<and> now + 3600000000 \<le> DATETIME_MAX \<longrightarrow>
          (\<not> already_provisioned st \<and> falsy (st ''cloneOperationName'')
           \<and> get_free_vm_from_pool w = (Inr (Some v), wa) \<and> \<not> falsy (Some v)
           \<and> api_get_vm v wa = (Inr current_vm, wb)
           \<and> api_patch_vm v (pool_patch_body n current_vm) wb = (Inr patched, wc)
           \<and> api_get_vmi v wc = (Inr vmi_obj, wd)
           \<and> \<not> falsy (case vmi_interfaces vmi_obj of [] \<Rightarrow> None | i # _ \<Rightarrow> i)
           \<and> vmi_phase vmi_obj = Some ''Running''
           \<and> notify_gateway n wd = (None, we) \<longrightarrow>
             cyberdesk_create isoformat spec n st retry now w
               = (Done,
                  Some (bound_status v (isoformat now) (isoformat (now + 3600000000))
                         ''AssignedFromPool''),
                  we))
          \<and> (\<not> already_provisioned st \<and> \<not> falsy (st ''cloneOperationName'')
             \<and> api_get_clone (the (st ''cloneOperationName'')) w = (Inr cl, wa)
             \<and> clone_phase cl = Some ''Succeeded''
             \<and> ensure_vm_patched_and_running n wa = (Inr u, wb) \<longrightarrow>
               cyberdesk_create isoformat spec n st retry now w
                 = (Done,
                    Some (bound_status n (isoformat now) (isoformat (now + 3600000000))
                           ''Cloned''),
                    wb))
          \<and> (already_provisioned st
             \<and> (st ''startTime'' = None \<or> st ''expiryTime'' = None)
             \<and> ensure_vm_patched_and_running (the (st ''virtualMachineRef'')) w = (Inr u, wa) \<longrightarrow>
               cyberdesk_create isoformat spec n st retry now w
                 = (Done,
                    Some ((splat st ++ [''startTime'' \<mapsto> Some (isoformat now),
                                        ''expiryTime'' \<mapsto> Some (isoformat (now + 3600000000))])
                          (''cloneOperationName'' := None)),
                    wa)))"
    by blast
qed

theorem default_timeout_witness:
  "(Map.empty :: string \<rightharpoonup> int) ''timeoutMs'' = None
   \<and> timeout_ms_of Map.empty = 3600000
   \<and> DATETIME_MIN \<le> 0 + 3600000000 \<and> 0 + 3600000000 \<le> DATETIME_MAX
   \<and> get_free_vm_from_pool (pool_world [(''vm-a'', warm_vm)] [])
       = (Inr (Some ''vm-a''), pool_world [(''vm-a'', claimed_vm)] [])
   \<and> cyberdesk_create isoformat_demo Map.empty ''desk-1'' Map.empty 0 0
        (pool_world [(''vm-a'', warm_vm)] [])
      = (Done,
         Some (bound_status ''vm-a'' ''1970-01-01T00:00:00+00:00''
                ''1970-01-01T01:00:00+00:00'' ''AssignedFromPool''),
         pool_world [(''vm-a'', merge_patch (pool_patch_body ''desk-1'' claimed_vm) claimed_vm)]
           [''http://gateway/cyberdesk/desk-1/ready''])
   \<and> bound_status ''vm-a'' ''1970-01-01T00:00:00+00:00'' ''1970-01-01T01:00:00+00:00''
        ''AssignedFromPool'' ''expiryTime'' = Some (Some (isoformat_demo (0 + 3600000000)))
   \<and> cyberdesk_create isoformat_demo Map.empty ''desk-2'' cloning_status 3 0
        (cluster [(''desk-2'', restored_vm)]
           [''clone-for-desk-2'' \<mapsto> clone_in_phase ''desk-2'' ''Succeeded''] [])
      = (Done,
         Some (bound_status ''desk-2'' ''1970-01-01T00:00:00+00:00''
                ''1970-01-01T01:00:00+00:00'' ''Cloned''),
         cluster [(''desk-2'', merge_patch (ensure_patch_body ''desk-2'') restored_vm)]
           [''clone-for-desk-2'' \<mapsto> clone_in_phase ''desk-2'' ''Succeeded''] [])
   \<and> already_provisioned unfinished_status \<and> unfinished_status ''startTime'' = None
   \<and> cyberdesk_create isoformat_demo Map.empty ''desk-2'' unfinished_status 0 0
        (cluster [(''desk-2'', restored_vm)] Map.empty [])
      = (Done,
         Some ((splat unfinished_status
                 ++ [''startTime'' \<mapsto> Some ''1970-01-01T00:00:00+00:00'',
                     ''expiryTime'' \<mapsto> Some ''1970-01-01T01:00:00+00:00''])
               (''cloneOperationName'' := None)),
         cluster [(''desk-2'', merge_patch (ensure_patch_body ''desk-2'') restored_vm)]
           Map.empty [])
   \<and> cyberdesk_create isoformat_demo Map.empty ''desk-2'' unfinished_status 0 0
        (cluster [(''desk-2'', restored_vm)] Map.empty [])
      = cyberdesk_create isoformat_demo [''timeoutMs'' \<mapsto> 3600000] ''desk-2''
          unfinished_status 0 0 (cluster [(''desk-2'', restored_vm)] Map.empty [])"
proof -
  let ?bound = "merge_patch (pool_patch_body ''desk-1'' claimed_vm) claimed_vm"
  let ?cs = "[''clone-for-desk-2'' \<mapsto> clone_in_phase ''desk-2'' ''Succeeded'']"
  let ?v' = "merge_patch (ensure_patch_body ''desk-2'') restored_vm"
  note f = scenario_facts
  have o: "(Map.empty :: string \<rightharpoonup> int) ''timeoutMs'' = None" by simp
  have nv: "\<not> falsy (Some ''vm-a'')" by (simp add: falsy_def)
  note th = default_timeout [where spec = Map.empty and isoformat = isoformat_demo and now = 0]
  from th [where n = "''desk-1''" and st = Map.empty and retry = 0
      and w = "pool_world [(''vm-a'', warm_vm)] []" and v = "''vm-a''"
      and wa = "pool_world [(''vm-a'', claimed_vm)] []" and current_vm = claimed_vm
      and wb = "pool_world [(''vm-a'', claimed_vm)] []" and patched = ?bound
      and wc = "pool_world [(''vm-a'', ?bound)] []" and vmi_obj = running_vmi
      and wd = "pool_world [(''vm-a'', ?bound)] []"
      and we = "pool_world [(''vm-a'', ?bound)] [''http://gateway/cyberdesk/desk-1/ready'']"]
    o f(1,2,9,10,13,14) nv scenario_pool_steps
  have r1: "timeout_ms_of Map.empty = 3600000"
    and r2: "cyberdesk_create isoformat_demo Map.empty ''desk-1'' Map.empty 0 0
        (pool_world [(''vm-a'', warm_vm)] [])
      = (Done,
         Some (bound_status ''vm-a'' (isoformat_demo 0) (isoformat_demo (0 + 3600000000))
                ''AssignedFromPool''),
         pool_world [(''vm-a'', ?bound)] [''http://gateway/cyberdesk/desk-1/ready''])"
    by blast+
  have g: "api_get_clone (the (cloning_status ''cloneOperationName''))
        (cluster [(''desk-2'', restored_vm)] ?cs [])
      = (Inr (clone_in_phase ''desk-2'' ''Succeeded''),
         cluster [(''desk-2'', restored_vm)] ?cs [])"
    using scenario_clone_steps(1) [of "[]"] by (simp add: f(5))
  from th [where n = "''desk-2''" and st = cloning_status and retry = 3
      and w = "cluster [(''desk-2'', restored_vm)] ?cs []"
      and cl = "clone_in_phase ''desk-2'' ''Succeeded''"
      and wa = "cluster [(''desk-2'', restored_vm)] ?cs []"
      and u = "()" and wb = "cluster [(''desk-2'', ?v')] ?cs []"]
    o f(3,4,13,14) g scenario_clone_steps(2) scenario_clone_steps(3) [of ?cs]
  have r3: "cyberdesk_create isoformat_demo Map.empty ''desk-2'' cloning_status 3 0
        (cluster [(''desk-2'', restored_vm)] ?cs [])
      = (Done,
         Some (bound_status ''desk-2'' (isoformat_demo 0) (isoformat_demo (0 + 3600000000))
                ''Cloned''),
         cluster [(''desk-2'', ?v')] ?cs [])"
    by blast
  have e: "ensure_vm_patched_and_running (the (unfinished_status ''virtualMachineRef''))
        (cluster [(''desk-2'', restored_vm)] Map.empty [])
      = (Inr (), cluster [(''desk-2'', ?v')] Map.empty [])"
    using scenario_clone_steps(3) [of Map.empty] by (simp add: f(8))
  from th [where n = "''desk-2''" and st = unfinished_status and retry = 0
      and w = "cluster [(''desk-2'', restored_vm)] Map.empty []"
      and u = "()" and wa = "cluster [(''desk-2'', ?v')] Map.empty []"]
    o f(6,7,13,14) e
  have r4: "cyberdesk_create isoformat_demo Map.empty ''desk-2'' unfinished_status 0 0
        (cluster [(''desk-2'', restored_vm)] Map.empty [])
      = (Done,
         Some ((splat unfinished_status
                 ++ [''startTime'' \<mapsto> Some (isoformat_demo 0),
                     ''expiryTime'' \<mapsto> Some (isoformat_demo (0 + 3600000000))])
               (''cloneOperationName'' := None)),
         cluster [(''desk-2'', ?v')] Map.empty [])"
    and r5: "cyberdesk_create isoformat_demo Map.empty ''desk-2'' unfinished_status 0 0
        (cluster [(''desk-2'', restored_vm)] Map.empty [])
      = cyberdesk_create isoformat_demo [''timeoutMs'' \<mapsto> 3600000] ''desk-2''
          unfinished_status 0 0 (cluster [(''desk-2'', restored_vm)] Map.empty [])"
    by blast+
  from th [where n = "''desk-1''" and st = Map.empty and retry = 0
      and w = "pool_world [(''vm-a'', warm_vm)] []"
      and p = "Some (bound_status ''vm-a'' (isoformat_demo 0) (isoformat_demo (0 + 3600000000))
                ''AssignedFromPool'')"
      and w' = "pool_world [(''vm-a'', ?bound)] [''http://gateway/cyberdesk/desk-1/ready'']"]
    o r2 f(1)
  have r6: "bound_status ''vm-a'' (isoformat_demo 0) (isoformat_demo (0 + 3600000000))
        ''AssignedFromPool'' ''expiryTime'' = Some (Some (isoformat_demo (0 + 3600000000)))"
    by auto
  have i: "isoformat_demo 0 = ''1970-01-01T00:00:00+00:00''"
    "isoformat_demo 3600000000 = ''1970-01-01T01:00:00+00:00''"
    using f(11,12) by simp_all
  from o r1 f(13,14) scenario_pool_steps(1) r2 r6 r3 f(6,7) r4 r5 show ?thesis
    by (simp add: i)
qed

end
